theory Spec2Isabelle
  imports
    Complex_Main
    "HOL-Library.Char_ord"
    "HOL-Library.List_Lexorder"
    "HOL-Library.Sublist"
begin

section \<open>Data model\<close>

text \<open>
  The backend keeps its data in SQLite tables and computes over them in TypeScript.
  A table is modelled as the list of its rows in insertion order, a JavaScript
  \<^verbatim>\<open>number\<close> as an exact \<^typ>\<open>real\<close> (rounding of IEEE doubles is outside the
  model), a TEXT column as a \<^typ>\<open>string\<close> compared bytewise as SQLite's BINARY
  collation does, and a nullable column as an \<^typ>\<open>'a option\<close>.
\<close>

datatype tx_type = Income | Expense

record transaction =
  t_id :: nat
  t_user_id :: string
  t_date :: string
  t_description :: string
  t_amount :: real
  t_category :: string
  t_type :: tx_type

datatype period = Monthly | Quarterly | Yearly

record budget =
  b_id :: nat
  b_user_id :: string
  b_category :: string
  b_amount :: real
  b_period :: period
  b_start_date :: string
  b_end_date :: "string option"
  b_alert_threshold :: "real option"

datatype variance_status = Under | On_track | Over

record budget_variance =
  v_budget :: budget
  v_actual :: real
  v_variance :: real
  v_variancePercentage :: real
  v_status :: variance_status

section \<open>Budget variance (budgetRepository.ts)\<close>

text \<open>
  \<^verbatim>\<open>getActiveBudgets\<close>: the budgets of the user whose window contains the current
  date, \<^verbatim>\<open>ORDER BY category\<close>. The current date is
  \<^verbatim>\<open>new Date().toISOString().split('T')[0]\<close>, passed in as \<open>currentDate\<close>.
\<close>

definition getActiveBudgets :: "string \<Rightarrow> string \<Rightarrow> budget list \<Rightarrow> budget list" where
  "getActiveBudgets currentDate userId bs =
     sort_key b_category
       (filter (\<lambda>b. b_user_id b = userId \<and> b_start_date b \<le> currentDate \<and>
                    (case b_end_date b of None \<Rightarrow> True | Some e \<Rightarrow> currentDate \<le> e)) bs)"

text \<open>
  The \<^verbatim>\<open>SELECT SUM(amount)\<close> of \<^verbatim>\<open>getBudgetVariance\<close>; SQL's \<^verbatim>\<open>NULL\<close> for an
  empty selection is turned into 0 by \<^verbatim>\<open>result.total || 0\<close>, which is what
  \<^const>\<open>sum_list\<close> gives for the empty list.
\<close>

definition expenseTotal :: "transaction list \<Rightarrow> string \<Rightarrow> string \<Rightarrow> string \<Rightarrow> string \<Rightarrow> real" where
  "expenseTotal txs userId category startDate endDate =
     sum_list (map t_amount
       (filter (\<lambda>t. t_user_id t = userId \<and> t_category t = category \<and>
                    startDate \<le> t_date t \<and> t_date t \<le> endDate \<and> t_type t = Expense) txs))"

text \<open>\<^verbatim>\<open>budget.alert_threshold || 0.9\<close>: a missing or zero threshold becomes 0.9.\<close>

definition thresholdOf :: "budget \<Rightarrow> real" where
  "thresholdOf b = (case b_alert_threshold b of None \<Rightarrow> 0.9
                     | Some th \<Rightarrow> if th = 0 then 0.9 else th)"

definition varianceOf :: "transaction list \<Rightarrow> string \<Rightarrow> string \<Rightarrow> string \<Rightarrow> budget \<Rightarrow> budget_variance" where
  "varianceOf txs userId startDate endDate b =
     (let actual = expenseTotal txs userId (b_category b) startDate endDate;
          variance = b_amount b - actual;
          variancePercentage = (if b_amount b > 0 then (variance / b_amount b) * 100 else 0);
          threshold = thresholdOf b;
          status = (if actual > b_amount b then Over
                    else if actual < b_amount b * threshold then Under
                    else On_track)
      in \<lparr> v_budget = b, v_actual = actual, v_variance = variance,
           v_variancePercentage = variancePercentage, v_status = status \<rparr>)"

text \<open>The \<^verbatim>\<open>for (const budget of budgets)\<close> loop, pushing one variance per budget.\<close>

fun varianceLoop :: "transaction list \<Rightarrow> string \<Rightarrow> string \<Rightarrow> string \<Rightarrow> budget list
                      \<Rightarrow> budget_variance list \<Rightarrow> budget_variance list" where
  "varianceLoop txs userId startDate endDate [] variances = variances"
| "varianceLoop txs userId startDate endDate (b # bs) variances =
     varianceLoop txs userId startDate endDate bs
       (variances @ [varianceOf txs userId startDate endDate b])"

definition getBudgetVariance ::
  "string \<Rightarrow> transaction list \<Rightarrow> budget list \<Rightarrow> string \<Rightarrow> string \<Rightarrow> string \<Rightarrow> budget_variance list" where
  "getBudgetVariance currentDate txs bs userId startDate endDate =
     varianceLoop txs userId startDate endDate (getActiveBudgets currentDate userId bs) []"

text \<open>
  \<^verbatim>\<open>checkBudgetAlerts\<close>: the variances of the current calendar month that are over
  budget or at the alert threshold. \<open>monthStart\<close> is the first day of the current month
  as the source derives it from the clock. A zero budget amount makes the quotient
  \<^verbatim>\<open>Infinity\<close>, \<^verbatim>\<open>-Infinity\<close> or \<^verbatim>\<open>NaN\<close> in JavaScript; only the first
  passes the comparison.
\<close>

definition checkBudgetAlerts ::
  "string \<Rightarrow> string \<Rightarrow> transaction list \<Rightarrow> budget list \<Rightarrow> string \<Rightarrow> budget_variance list" where
  "checkBudgetAlerts currentDate monthStart txs bs userId =
     filter (\<lambda>v. v_status v = Over \<or>
                  (if b_amount (v_budget v) = 0 then v_actual v > 0
                   else v_actual v / b_amount (v_budget v) \<ge> thresholdOf (v_budget v)))
       (getBudgetVariance currentDate txs bs userId monthStart currentDate)"

section \<open>Helpers standing for SQL and JavaScript built-ins\<close>

text \<open>
  \<^verbatim>\<open>ORDER BY k DESC\<close>. Rows with equal keys keep their insertion order; SQLite
  leaves their order open, and nothing below depends on it.
\<close>

definition order_by_desc :: "('a \<Rightarrow> 'k::linorder) \<Rightarrow> 'a list \<Rightarrow> 'a list" where
  "order_by_desc k xs = rev (sort_key k (rev xs))"

text \<open>\<^verbatim>\<open>String.prototype.includes\<close>: the argument occurs as a contiguous substring.\<close>

definition includes_str :: "string \<Rightarrow> string \<Rightarrow> bool" where
  "includes_str s sub = sublist sub s"

definition dquote :: char where
  "dquote = CHR 0x22"

definition backslash :: char where
  "backslash = CHR 0x5C"

text \<open>Decimal digits of a natural number: \<^verbatim>\<open>toString()\<close> of a row id or a length.\<close>

definition digit :: "nat \<Rightarrow> char" where
  "digit d = ''0123456789'' ! (d mod 10)"

fun decimal :: "nat \<Rightarrow> string" where
  "decimal n = (if n < 10 then [digit n] else decimal (n div 10) @ [digit n])"

declare decimal.simps [simp del]

text \<open>
  \<^verbatim>\<open>JSON.stringify\<close> of a string: quotes and backslashes get a backslash, control
  characters their short or \<^verbatim>\<open>\u00XX\<close> escape, every other byte stays.
\<close>

definition hexdigit :: "nat \<Rightarrow> char" where
  "hexdigit d = ''0123456789abcdef'' ! (d mod 16)"

definition json_escape :: "char \<Rightarrow> string" where
  "json_escape c =
     (if c = dquote then [backslash, dquote]
      else if c = backslash then [backslash, backslash]
      else if c = CHR 0x08 then [backslash, CHR ''b'']
      else if c = CHR 0x0C then [backslash, CHR ''f'']
      else if c = CHR 0x0A then [backslash, CHR ''n'']
      else if c = CHR 0x0D then [backslash, CHR ''r'']
      else if c = CHR 0x09 then [backslash, CHR ''t'']
      else if (of_char c :: nat) < 32
        then [backslash] @ ''u00'' @ [hexdigit (of_char c div 16), hexdigit (of_char c)]
      else [c])"

definition json_string :: "string \<Rightarrow> string" where
  "json_string s = [dquote] @ concat (map json_escape s) @ [dquote]"

text \<open>A JSON object from its keys and already serialised values.\<close>

definition json_field :: "string \<times> string \<Rightarrow> string" where
  "json_field kv = json_string (fst kv) @ '':'' @ snd kv"

fun json_fields :: "(string \<times> string) list \<Rightarrow> string" where
  "json_fields [] = []"
| "json_fields [kv] = json_field kv"
| "json_fields (kv # kvs) = json_field kv @ '','' @ json_fields kvs"

definition json_object :: "(string \<times> string) list \<Rightarrow> string" where
  "json_object kvs = ''{'' @ json_fields kvs @ ''}''"

text \<open>\<^verbatim>\<open>Math.round\<close>: the nearest integer, halves upwards.\<close>

definition js_round :: "real \<Rightarrow> real" where
  "js_round x = of_int \<lfloor>x + 1 / 2\<rfloor>"

text \<open>\<^verbatim>\<open>Math.ceil\<close>.\<close>

definition js_ceil :: "real \<Rightarrow> real" where
  "js_ceil x = of_int \<lceil>x\<rceil>"

text \<open>
  \<^verbatim>\<open>new Date(s).getTime()\<close> for a date-only ISO text \<^verbatim>\<open>YYYY-MM-DD\<close>, the form the
  backend writes dates in: midnight UTC of that day in milliseconds since 1970-01-01.
  Anything else is \<^const>\<open>None\<close> here; the engine parses more forms than this, so the
  function stands for the parser only on its \<^const>\<open>Some\<close> results.
\<close>

definition digitVal :: "char \<Rightarrow> nat option" where
  "digitVal c = map_of (zip ''0123456789'' [0, 1, 2, 3, 4, 5, 6, 7, 8, 9]) c"

fun numVal :: "nat \<Rightarrow> string \<Rightarrow> nat option" where
  "numVal acc [] = Some acc"
| "numVal acc (c # cs) = (case digitVal c of None \<Rightarrow> None | Some v \<Rightarrow> numVal (acc * 10 + v) cs)"

definition isLeapYear :: "nat \<Rightarrow> bool" where
  "isLeapYear y = (y mod 4 = 0 \<and> (y mod 100 \<noteq> 0 \<or> y mod 400 = 0))"

definition daysInMonth :: "nat \<Rightarrow> nat \<Rightarrow> nat" where
  "daysInMonth y m =
     (if m = 2 then (if isLeapYear y then 29 else 28)
      else if m = 4 \<or> m = 6 \<or> m = 9 \<or> m = 11 then 30 else 31)"

text \<open>Days from 1970-01-01 to a day of the proleptic Gregorian calendar.\<close>

definition daysFromCivil :: "int \<Rightarrow> int \<Rightarrow> int \<Rightarrow> int" where
  "daysFromCivil y m d =
     (let y' = (if m \<le> 2 then y - 1 else y);
          era = y' div 400;
          yoe = y' - era * 400;
          mp = (m + 9) mod 12;
          doy = (153 * mp + 2) div 5 + d - 1;
          doe = yoe * 365 + yoe div 4 - yoe div 100 + doy
      in era * 146097 + doe - 719468)"

definition isoDateMs :: "string \<Rightarrow> real option" where
  "isoDateMs s =
     (if length s = 10 \<and> s ! 4 = CHR ''-'' \<and> s ! 7 = CHR ''-'' then
        (case (numVal 0 (take 4 s), numVal 0 (take 2 (drop 5 s)), numVal 0 (drop 8 s)) of
           (Some y, Some m, Some d) \<Rightarrow>
             if 1 \<le> m \<and> m \<le> 12 \<and> 1 \<le> d \<and> d \<le> daysInMonth y m
             then Some (of_int (daysFromCivil (int y) (int m) (int d)) * (1000 * 60 * 60 * 24))
             else None
         | _ \<Rightarrow> None)
      else None)"

text \<open>
  \<^verbatim>\<open>x.toFixed(d)\<close> on exact reals: the nearest multiple of \<open>10^-d\<close>, halves away from
  zero, printed with \<open>d\<close> decimals.
\<close>

definition padLeft :: "nat \<Rightarrow> string \<Rightarrow> string" where
  "padLeft n s = replicate (n - length s) (CHR ''0'') @ s"

definition toFixedText :: "nat \<Rightarrow> real \<Rightarrow> string" where
  "toFixedText d x =
     (let n = nat \<lfloor>\<bar>x\<bar> * 10 ^ d + 1 / 2\<rfloor>
      in (if x < 0 \<and> n \<noteq> 0 then ''-'' else [])
         @ decimal (n div 10 ^ d)
         @ (if d = 0 then [] else ''.'' @ padLeft d (decimal (n mod 10 ^ d))))"

section \<open>The environment of a call\<close>

text \<open>
  What a call reads from outside the tables: the clock in the forms the source asks for
  it, the date parser and the number formatters of the JavaScript engine, and SQLite's
  date arithmetic. All of it is an input of the model. A date text that the engine cannot
  parse gives \<^verbatim>\<open>NaN\<close>, here \<^const>\<open>None\<close>.
\<close>

datatype frequency = Daily | Weekly | MonthlyF | QuarterlyF | YearlyF

record env =
  e_isoDate :: string
  e_dateString :: string
  e_monthStart :: string
  e_nowMs :: real
  e_timestamp :: string
  e_monthsAgo :: "nat \<Rightarrow> string"
  e_futureMonth :: "nat \<Rightarrow> string"
  e_getTime :: "string \<Rightarrow> real option"
  e_dateStringOf :: "string \<Rightarrow> string"
  e_numToString :: "real \<Rightarrow> string"
  e_toLocaleString :: "real \<Rightarrow> string"
  e_toFixed :: "nat \<Rightarrow> real \<Rightarrow> string"
  e_nextExpected :: "string \<Rightarrow> frequency \<Rightarrow> string"

text \<open>
  The fields, as the source writes them:
  \<^item> \<open>e_isoDate\<close>: \<^verbatim>\<open>new Date().toISOString().split('T')[0]\<close>;
  \<^item> \<open>e_dateString\<close>: \<^verbatim>\<open>new Date().toDateString()\<close>;
  \<^item> \<open>e_monthStart\<close>: \<^verbatim>\<open>new Date(y, m, 1).toISOString().split('T')[0]\<close> of the current month;
  \<^item> \<open>e_nowMs\<close>: \<^verbatim>\<open>new Date().getTime()\<close>;
  \<^item> \<open>e_timestamp\<close>: SQLite's \<^verbatim>\<open>CURRENT_TIMESTAMP\<close>;
  \<^item> \<open>e_monthsAgo n\<close>: SQLite's \<^verbatim>\<open>date('now', '-n months')\<close>;
  \<^item> \<open>e_futureMonth i\<close>: \<^verbatim>\<open>new Date(y, m + i, 1).toISOString().slice(0, 7)\<close>;
  \<^item> \<open>e_getTime s\<close>: \<^verbatim>\<open>new Date(s).getTime()\<close>;
  \<^item> \<open>e_dateStringOf s\<close>: \<^verbatim>\<open>new Date(s).toDateString()\<close>;
  \<^item> \<open>e_numToString x\<close>: a number in a template literal or in \<^verbatim>\<open>JSON.stringify\<close>;
  \<^item> \<open>e_toLocaleString x\<close>, \<open>e_toFixed d x\<close>: \<^verbatim>\<open>x.toLocaleString()\<close>, \<^verbatim>\<open>x.toFixed(d)\<close>;
  \<^item> \<open>e_nextExpected\<close>: the local-time calendar step of \<^verbatim>\<open>calculateNextExpected\<close>
    (\<^verbatim>\<open>setDate\<close>, \<^verbatim>\<open>setMonth\<close>, \<^verbatim>\<open>setFullYear\<close> on a \<^verbatim>\<open>Date\<close>).
\<close>

definition msPerDay :: real where
  "msPerDay = 1000 * 60 * 60 * 24"

text \<open>
  A quotient times 100 printed with \<^verbatim>\<open>toFixed(0)\<close>; a zero divisor gives
  \<^verbatim>\<open>Infinity\<close>, \<^verbatim>\<open>-Infinity\<close> or \<^verbatim>\<open>NaN\<close>, which print as their names.
\<close>

definition percentText :: "env \<Rightarrow> real \<Rightarrow> real \<Rightarrow> string" where
  "percentText ev num den =
     (if den = 0 then (if num > 0 then ''Infinity'' else if num < 0 then ''-Infinity'' else ''NaN'')
      else e_toFixed ev 0 (num / den * 100))"

section \<open>Goals (goalRepository.ts)\<close>

datatype goal_type = Revenue | Profit | Savings | Expense_reduction | Custom_goal

datatype goal_status = Active | Completed | Cancelled

record financial_goal =
  g_id :: nat
  g_user_id :: string
  g_goal_type :: goal_type
  g_target_amount :: real
  g_current_amount :: real
  g_deadline :: "string option"
  g_description :: "string option"
  g_status :: goal_status
  g_created_at :: string
  g_updated_at :: string

record goal_progress =
  gp_goal :: financial_goal
  gp_progress_percentage :: real
  gp_remaining_amount :: real
  gp_days_remaining :: "real option"
  gp_on_track :: bool

text \<open>\<^verbatim>\<open>getGoals(userId, status?)\<close>, \<^verbatim>\<open>ORDER BY created_at DESC\<close>.\<close>

definition getGoals :: "financial_goal list \<Rightarrow> string \<Rightarrow> goal_status option \<Rightarrow> financial_goal list" where
  "getGoals gs userId status =
     order_by_desc g_created_at
       (filter (\<lambda>g. g_user_id g = userId \<and>
                    (case status of None \<Rightarrow> True | Some st \<Rightarrow> g_status g = st)) gs)"

text \<open>
  \<^verbatim>\<open>getGoalProgress\<close>. \<open>gp_days_remaining\<close> is \<^const>\<open>None\<close> both for
  \<^verbatim>\<open>undefined\<close> (no deadline) and for \<^verbatim>\<open>NaN\<close> (a deadline that does not parse);
  the source only tests it for truth, and both are false. With a \<^verbatim>\<open>NaN\<close> among the
  day counts the test \<^verbatim>\<open>totalDays > 0\<close> fails and the expected progress is 0.
\<close>

definition progressOf :: "env \<Rightarrow> financial_goal \<Rightarrow> goal_progress" where
  "progressOf ev goal =
     (let progress_percentage =
            (if g_target_amount goal > 0
             then (g_current_amount goal / g_target_amount goal) * 100 else 0);
          remaining_amount = g_target_amount goal - g_current_amount goal;
          now = e_nowMs ev
      in case g_deadline goal of
           None \<Rightarrow>
             \<lparr> gp_goal = goal, gp_progress_percentage = progress_percentage,
               gp_remaining_amount = remaining_amount, gp_days_remaining = None,
               gp_on_track = True \<rparr>
         | Some dl \<Rightarrow>
             (let deadline = e_getTime ev dl;
                  created = e_getTime ev (g_created_at goal);
                  days_remaining = map_option (\<lambda>d. js_ceil ((d - now) / msPerDay)) deadline;
                  expectedProgress =
                    (case (deadline, created) of
                       (Some d, Some c) \<Rightarrow>
                         (let totalDays = js_ceil ((d - c) / msPerDay);
                              elapsedDays = js_ceil ((now - c) / msPerDay)
                          in if totalDays > 0 then (elapsedDays / totalDays) * 100 else 0)
                     | _ \<Rightarrow> 0)
              in \<lparr> gp_goal = goal, gp_progress_percentage = progress_percentage,
                   gp_remaining_amount = remaining_amount, gp_days_remaining = days_remaining,
                   gp_on_track = (progress_percentage \<ge> expectedProgress * 0.9) \<rparr>))"

definition getGoalProgress :: "env \<Rightarrow> financial_goal list \<Rightarrow> string \<Rightarrow> goal_progress list" where
  "getGoalProgress ev gs userId = map (progressOf ev) (getGoals gs userId (Some Active))"

text \<open>
  \<^verbatim>\<open>checkGoalCompletion\<close>: select the active goals of the user that reached their
  target, then \<^verbatim>\<open>UPDATE ... WHERE id = ?\<close> each one whose id is truthy (not 0), and
  return the rows as they were selected.
\<close>

definition markCompleted :: "env \<Rightarrow> financial_goal \<Rightarrow> financial_goal" where
  "markCompleted ev g = g\<lparr> g_status := Completed, g_updated_at := e_timestamp ev \<rparr>"

definition completeGoal :: "env \<Rightarrow> nat \<Rightarrow> financial_goal list \<Rightarrow> financial_goal list" where
  "completeGoal ev gid gs = map (\<lambda>g. if g_id g = gid then markCompleted ev g else g) gs"

fun completionLoop :: "env \<Rightarrow> financial_goal list \<Rightarrow> financial_goal list \<Rightarrow> financial_goal list" where
  "completionLoop ev [] gs = gs"
| "completionLoop ev (goal # rest) gs =
     completionLoop ev rest (if g_id goal \<noteq> 0 then completeGoal ev (g_id goal) gs else gs)"

definition checkGoalCompletion ::
  "env \<Rightarrow> financial_goal list \<Rightarrow> string \<Rightarrow> financial_goal list \<times> financial_goal list" where
  "checkGoalCompletion ev gs userId =
     (let completedGoals =
            filter (\<lambda>g. g_user_id g = userId \<and> g_status g = Active \<and>
                         g_current_amount g \<ge> g_target_amount g) gs
      in (completedGoals, completionLoop ev completedGoals gs))"

section \<open>Alerts, anomalies and recurring transactions (alertRepository)\<close>

datatype alert_type = Budget_overrun | Low_cash | AnomalyA | Goal_progress | Trend | Custom

datatype severity = Info | Warning | Critical

record alert =
  a_user_id :: string
  a_alert_type :: alert_type
  a_severity :: severity
  a_title :: string
  a_message :: string
  a_data :: "string option"
  a_read :: nat
  a_dismissed :: nat
  a_created_at :: string

datatype anomaly_type = Unusual_amount | Unusual_category | Unusual_frequency | Duplicate | Other

record anomaly =
  an_user_id :: string
  an_transaction_id :: "nat option"
  an_anomaly_type :: anomaly_type
  an_severity :: real
  an_description :: string
  an_reviewed :: nat
  an_false_positive :: nat
  an_detected_at :: string

record recurring_transaction =
  r_user_id :: string
  r_description :: string
  r_amount :: real
  r_category :: string
  r_type :: tx_type
  r_frequency :: frequency
  r_confidence :: real
  r_last_occurrence :: "string option"
  r_next_expected :: "string option"
  r_detected_at :: string

text \<open>
  The inserts take their row and let SQLite stamp it (\<^verbatim>\<open>DEFAULT CURRENT_TIMESTAMP\<close>).
  The autoincrement ids of these three tables are never read by the code modelled here
  and are left out of the rows.
\<close>

definition createAlert :: "env \<Rightarrow> alert \<Rightarrow> alert list \<Rightarrow> alert list" where
  "createAlert ev al als = als @ [al\<lparr> a_created_at := e_timestamp ev \<rparr>]"

text \<open>\<^verbatim>\<open>getAlerts(userId, includeRead, includeDismissed)\<close>, \<^verbatim>\<open>ORDER BY created_at DESC\<close>.\<close>

definition getAlerts :: "alert list \<Rightarrow> string \<Rightarrow> bool \<Rightarrow> bool \<Rightarrow> alert list" where
  "getAlerts als userId includeRead includeDismissed =
     order_by_desc a_created_at
       (filter (\<lambda>a. a_user_id a = userId \<and>
                    (includeRead \<or> a_read a = 0) \<and>
                    (includeDismissed \<or> a_dismissed a = 0)) als)"

definition createAnomaly :: "env \<Rightarrow> anomaly \<Rightarrow> anomaly list \<Rightarrow> anomaly list" where
  "createAnomaly ev an ans = ans @ [an\<lparr> an_detected_at := e_timestamp ev \<rparr>]"

text \<open>
  \<^verbatim>\<open>getAnomalies(userId, includeReviewed)\<close>,
  \<^verbatim>\<open>ORDER BY severity DESC, detected_at DESC\<close>.
\<close>

definition getAnomalies :: "anomaly list \<Rightarrow> string \<Rightarrow> bool \<Rightarrow> anomaly list" where
  "getAnomalies ans userId includeReviewed =
     order_by_desc an_severity (order_by_desc an_detected_at
       (filter (\<lambda>a. an_user_id a = userId \<and> (includeReviewed \<or> an_reviewed a = 0)) ans))"



section \<open>Transactions (transactionRepository)\<close>

text \<open>
  \<^verbatim>\<open>addTransaction\<close>: the new row gets the next autoincrement id, which is returned.
  Ids of deleted rows are not tracked: the next id is one above the largest present.
\<close>

definition nextId :: "transaction list \<Rightarrow> nat" where
  "nextId txs = Suc (fold max (map t_id txs) 0)"

definition addTransaction :: "transaction \<Rightarrow> transaction list \<Rightarrow> nat \<times> transaction list" where
  "addTransaction t txs = (nextId txs, txs @ [t\<lparr> t_id := nextId txs \<rparr>])"

record financial_summary =
  fs_revenue :: real
  fs_expenses :: real
  fs_profit :: real

definition getFinancialSummary :: "transaction list \<Rightarrow> string \<Rightarrow> financial_summary" where
  "getFinancialSummary txs userId =
     (let rows = filter (\<lambda>t. t_user_id t = userId) txs;
          revenue = sum_list (map (\<lambda>t. if t_type t = Income then t_amount t else 0) rows);
          expenses = sum_list (map (\<lambda>t. if t_type t = Expense then t_amount t else 0) rows)
      in \<lparr> fs_revenue = revenue, fs_expenses = expenses, fs_profit = revenue - expenses \<rparr>)"

text \<open>\<^verbatim>\<open>getTransactionsByCategory(userId, category)\<close> with no dates, \<^verbatim>\<open>ORDER BY date DESC\<close>.\<close>

definition getTransactionsByCategory :: "transaction list \<Rightarrow> string \<Rightarrow> string \<Rightarrow> transaction list" where
  "getTransactionsByCategory txs userId category =
     order_by_desc t_date (filter (\<lambda>t. t_user_id t = userId \<and> t_category t = category) txs)"

text \<open>\<^verbatim>\<open>AVG(amount)\<close> of a non-empty group.\<close>

definition average :: "real list \<Rightarrow> real" where
  "average xs = sum_list xs / real (length xs)"

text \<open>
  \<^verbatim>\<open>getAnomalousTransactions\<close>. The statistics query groups the user's rows by
  (category, type) and keeps the groups of at least 3 rows; SQL leaves the order of the
  groups open, here it is the order of \<^const>\<open>remdups\<close>. For each group the second query
  selects the rows above the group's average times the threshold,
  \<^verbatim>\<open>ORDER BY amount DESC\<close>.
\<close>

record category_stat =
  cs_category :: string
  cs_type :: tx_type
  cs_avg_amount :: real
  cs_count :: nat

definition categoryRows :: "transaction list \<Rightarrow> string \<Rightarrow> string \<Rightarrow> tx_type \<Rightarrow> transaction list" where
  "categoryRows txs userId category ty =
     filter (\<lambda>t. t_user_id t = userId \<and> t_category t = category \<and> t_type t = ty) txs"

definition categoryStats :: "transaction list \<Rightarrow> string \<Rightarrow> category_stat list" where
  "categoryStats txs userId =
     filter (\<lambda>st. cs_count st \<ge> 3)
       (map (\<lambda>(c, ty). \<lparr> cs_category = c, cs_type = ty,
                          cs_avg_amount = average (map t_amount (categoryRows txs userId c ty)),
                          cs_count = length (categoryRows txs userId c ty) \<rparr>)
            (remdups (map (\<lambda>t. (t_category t, t_type t))
                          (filter (\<lambda>t. t_user_id t = userId) txs))))"

definition highTransactions :: "transaction list \<Rightarrow> string \<Rightarrow> real \<Rightarrow> category_stat \<Rightarrow> transaction list" where
  "highTransactions txs userId threshold st =
     order_by_desc t_amount
       (filter (\<lambda>t. t_amount t > cs_avg_amount st * threshold)
               (categoryRows txs userId (cs_category st) (cs_type st)))"

fun anomalyLoop :: "transaction list \<Rightarrow> string \<Rightarrow> real \<Rightarrow> category_stat list
                     \<Rightarrow> transaction list \<Rightarrow> transaction list" where
  "anomalyLoop txs userId threshold [] anomalies = anomalies"
| "anomalyLoop txs userId threshold (st # sts) anomalies =
     anomalyLoop txs userId threshold sts (anomalies @ highTransactions txs userId threshold st)"

definition getAnomalousTransactions :: "transaction list \<Rightarrow> string \<Rightarrow> real \<Rightarrow> transaction list" where
  "getAnomalousTransactions txs userId threshold =
     anomalyLoop txs userId threshold (categoryStats txs userId) []"





text \<open>
  SQLite's \<^verbatim>\<open>LIKE\<close> with its defaults: \<^verbatim>\<open>%\<close> matches any run of characters,
  \<^verbatim>\<open>_\<close> any single one, and ASCII letters match without regard to case. Texts are
  taken bytewise here.
\<close>

definition ascii_lower :: "char \<Rightarrow> char" where
  "ascii_lower c =
     (case map_of (zip ''ABCDEFGHIJKLMNOPQRSTUVWXYZ'' ''abcdefghijklmnopqrstuvwxyz'') c of
        None \<Rightarrow> c | Some d \<Rightarrow> d)"

fun sql_like :: "string \<Rightarrow> string \<Rightarrow> bool" where
  "sql_like [] s = (s = [])"
| "sql_like (p # ps) [] = (p = CHR ''%'' \<and> sql_like ps [])"
| "sql_like (p # ps) (c # cs) =
     (if p = CHR ''%'' then sql_like ps (c # cs) \<or> sql_like (p # ps) cs
      else (p = CHR ''_'' \<or> ascii_lower p = ascii_lower c) \<and> sql_like ps cs)"

text \<open>
  \<^verbatim>\<open>bulkUpdateCategory\<close>: one \<^verbatim>\<open>UPDATE\<close> with the pattern \<^verbatim>\<open>%vendorName%\<close>;
  \<^verbatim>\<open>info.changes\<close> counts the rows the \<^verbatim>\<open>WHERE\<close> clause selects.
\<close>

definition bulkMatches :: "string \<Rightarrow> string \<Rightarrow> transaction \<Rightarrow> bool" where
  "bulkMatches userId vendorName t =
     (t_user_id t = userId \<and> sql_like (''%'' @ vendorName @ ''%'') (t_description t))"

definition bulkUpdateCategory ::
  "transaction list \<Rightarrow> string \<Rightarrow> string \<Rightarrow> string \<Rightarrow> nat \<times> transaction list" where
  "bulkUpdateCategory txs userId vendorName newCategory =
     (length (filter (bulkMatches userId vendorName) txs),
      map (\<lambda>t. if bulkMatches userId vendorName t then t\<lparr> t_category := newCategory \<rparr> else t) txs)"

section \<open>Monthly trends and forecasts (analyticsRepository.ts)\<close>

record trend_data =
  td_period :: string
  td_income :: real
  td_expenses :: real
  td_profit :: real

text \<open>
  \<^verbatim>\<open>getMonthlyTrends\<close>: the user's rows not older than \<^verbatim>\<open>date('now', '-N months')\<close>,
  grouped by \<^verbatim>\<open>strftime('%Y-%m', date)\<close>, newest period first. Dates are stored as
  \<^verbatim>\<open>YYYY-MM-DD\<close> texts, of which \<^verbatim>\<open>strftime\<close> keeps the first seven characters.
\<close>

definition strftime_Ym :: "string \<Rightarrow> string" where
  "strftime_Ym d = take 7 d"

definition trendOf :: "transaction list \<Rightarrow> string \<Rightarrow> trend_data" where
  "trendOf rows per =
     (let rs = filter (\<lambda>t. strftime_Ym (t_date t) = per) rows
      in \<lparr> td_period = per,
           td_income = sum_list (map (\<lambda>t. if t_type t = Income then t_amount t else 0) rs),
           td_expenses = sum_list (map (\<lambda>t. if t_type t = Expense then t_amount t else 0) rs),
           td_profit = sum_list (map (\<lambda>t. if t_type t = Income then t_amount t else - t_amount t) rs) \<rparr>)"

definition getMonthlyTrends :: "env \<Rightarrow> transaction list \<Rightarrow> string \<Rightarrow> nat \<Rightarrow> trend_data list" where
  "getMonthlyTrends ev txs userId months =
     (let rows = filter (\<lambda>t. t_user_id t = userId \<and> e_monthsAgo ev months \<le> t_date t) txs
      in map (trendOf rows) (rev (sort (remdups (map (\<lambda>t. strftime_Ym (t_date t)) rows)))))"

record cash_flow_forecast =
  f_user_id :: string
  f_forecast_date :: string
  f_projected_income :: real
  f_projected_expenses :: real
  f_projected_balance :: real
  f_confidence_level :: real
  f_assumptions :: string

definition saveForecast :: "cash_flow_forecast \<Rightarrow> cash_flow_forecast list \<Rightarrow> cash_flow_forecast list" where
  "saveForecast f fs = fs @ [f]"

section \<open>The database\<close>

datatype role = User | Model

record conversation_message =
  c_user_id :: string
  c_role :: role
  c_content :: string
  c_timestamp :: string

datatype notification_type = N_info | N_success | N_warning | N_error

record notification =
  n_user_id :: string
  n_title :: string
  n_message :: string
  n_type :: notification_type
  n_created_at :: string

record db =
  transactions :: "transaction list"
  budgets :: "budget list"
  financial_goals :: "financial_goal list"
  alerts :: "alert list"
  anomalies :: "anomaly list"
  recurring_transactions :: "recurring_transaction list"
  cash_flow_forecasts :: "cash_flow_forecast list"
  conversations :: "conversation_message list"
  notifications :: "notification list"

section \<open>Forecast and detection (financialIntelligenceService.ts)\<close>

record cash_flow_projection =
  pr_month :: string
  pr_projected_income :: real
  pr_projected_expenses :: real
  pr_projected_balance :: real
  pr_confidence :: real

text \<open>
  \<^verbatim>\<open>calculateGrowthRate\<close>: the series is newest first, so \<^verbatim>\<open>first\<close> is its last
  element and \<^verbatim>\<open>last\<close> its head.
\<close>

definition calculateGrowthRate :: "real list \<Rightarrow> real" where
  "calculateGrowthRate values =
     (if length values < 2 then 0
      else (let first = last values; lst = hd values
            in if first = 0 then 0
               else ((lst - first) / first) / real (length values - 1)))"

text \<open>
  The body of the \<^verbatim>\<open>for (let i = 1; i <= months; i++)\<close> loop, with the running
  balance, the projections returned and the forecast table as its state. The first
  numeric argument counts the iterations left.
\<close>

fun forecastLoop ::
  "env \<Rightarrow> string \<Rightarrow> real \<Rightarrow> real \<Rightarrow> real \<Rightarrow> real \<Rightarrow> string \<Rightarrow> nat \<Rightarrow> nat
     \<Rightarrow> real \<times> cash_flow_projection list \<times> cash_flow_forecast list
     \<Rightarrow> real \<times> cash_flow_projection list \<times> cash_flow_forecast list" where
  "forecastLoop ev userId avgIncome avgExpenses incomeGrowth expenseGrowth assumptions 0 i st = st"
| "forecastLoop ev userId avgIncome avgExpenses incomeGrowth expenseGrowth assumptions (Suc n) i
       (runningBalance, projections, forecasts) =
     (let monthStr = e_futureMonth ev i;
          projectedIncome = avgIncome * (1 + incomeGrowth) ^ i;
          projectedExpenses = avgExpenses * (1 + expenseGrowth) ^ i;
          runningBalance' = runningBalance + (projectedIncome - projectedExpenses);
          confidence = max 0.5 (0.9 - (real i * 0.1))
      in forecastLoop ev userId avgIncome avgExpenses incomeGrowth expenseGrowth assumptions n (Suc i)
           (runningBalance',
            projections @ [\<lparr> pr_month = monthStr,
                              pr_projected_income = js_round projectedIncome,
                              pr_projected_expenses = js_round projectedExpenses,
                              pr_projected_balance = js_round runningBalance',
                              pr_confidence = confidence \<rparr>],
            saveForecast \<lparr> f_user_id = userId, f_forecast_date = monthStr,
                           f_projected_income = projectedIncome,
                           f_projected_expenses = projectedExpenses,
                           f_projected_balance = runningBalance',
                           f_confidence_level = confidence,
                           f_assumptions = assumptions \<rparr> forecasts))"

definition forecastCashFlow :: "env \<Rightarrow> db \<Rightarrow> string \<Rightarrow> int \<Rightarrow> cash_flow_projection list \<times> db" where
  "forecastCashFlow ev d userId months =
     (let trends = getMonthlyTrends ev (transactions d) userId 6
      in if length trends < 2 then ([], d)
         else
           (let avgIncome = sum_list (map td_income trends) / real (length trends);
                avgExpenses = sum_list (map td_expenses trends) / real (length trends);
                incomeGrowth = calculateGrowthRate (map td_income trends);
                expenseGrowth = calculateGrowthRate (map td_expenses trends);
                summary = getFinancialSummary (transactions d) userId;
                assumptions = ''Based on '' @ decimal (length trends)
                  @ '' months of historical data with '' @ e_toFixed ev 1 (incomeGrowth * 100)
                  @ ''% income growth and '' @ e_toFixed ev 1 (expenseGrowth * 100)
                  @ ''% expense growth'';
                (runningBalance, projections, forecasts) =
                  forecastLoop ev userId avgIncome avgExpenses incomeGrowth expenseGrowth assumptions
                    (nat months) 1 (fs_profit summary, [], cash_flow_forecasts d)
            in (projections, d\<lparr> cash_flow_forecasts := forecasts \<rparr>)))"

text \<open>
  \<^verbatim>\<open>detectAnomalies\<close>: for each transaction flagged with threshold 3, look the
  unreviewed anomalies of the user up again, and record an anomaly and an alert unless one
  names the transaction already. The severity divides by the average over
  \<^verbatim>\<open>getTransactionsByCategory(userId, transaction.category)\<close>.
\<close>

definition anomalyOf :: "env \<Rightarrow> string \<Rightarrow> transaction \<Rightarrow> transaction list \<Rightarrow> anomaly" where
  "anomalyOf ev userId t txs =
     (let categoryTransactions = getTransactionsByCategory txs userId (t_category t);
          amounts = map t_amount categoryTransactions;
          avg = average amounts;
          sev = t_amount t / avg
      in \<lparr> an_user_id = userId, an_transaction_id = Some (t_id t),
           an_anomaly_type = Unusual_amount, an_severity = sev,
           an_description = ''Transaction of $'' @ e_toLocaleString ev (t_amount t)
             @ '' for '' @ t_description t @ '' is '' @ e_toFixed ev 1 sev
             @ ''x higher than average for '' @ t_category t,
           an_reviewed = 0, an_false_positive = 0, an_detected_at = [] \<rparr>)"

definition anomalyAlertOf :: "env \<Rightarrow> string \<Rightarrow> transaction \<Rightarrow> transaction list \<Rightarrow> alert" where
  "anomalyAlertOf ev userId t txs =
     \<lparr> a_user_id = userId, a_alert_type = AnomalyA,
       a_severity = (if an_severity (anomalyOf ev userId t txs) > 5 then Critical else Warning),
       a_title = ''Unusual Transaction Detected'',
       a_message = ''A transaction of $'' @ e_toLocaleString ev (t_amount t)
         @ '' for '' @ [dquote] @ t_description t @ [dquote]
         @ '' is significantly higher than your typical '' @ t_category t
         @ '' expenses.'',
       a_data = Some (json_object [(''transaction_id'', decimal (t_id t))]),
       a_read = 0, a_dismissed = 0, a_created_at = [] \<rparr>"

definition recordAnomaly :: "env \<Rightarrow> string \<Rightarrow> transaction \<Rightarrow> db \<Rightarrow> db" where
  "recordAnomaly ev userId t d =
     (let existing = getAnomalies (anomalies d) userId False;
          alreadyRecorded = list_ex (\<lambda>a. an_transaction_id a = Some (t_id t)) existing
      in if \<not> alreadyRecorded \<and> t_id t \<noteq> 0 then
           d\<lparr> anomalies := createAnomaly ev (anomalyOf ev userId t (transactions d)) (anomalies d),
              alerts := createAlert ev (anomalyAlertOf ev userId t (transactions d)) (alerts d) \<rparr>
         else d)"

fun detectAnomaliesLoop :: "env \<Rightarrow> string \<Rightarrow> transaction list \<Rightarrow> db \<Rightarrow> db" where
  "detectAnomaliesLoop ev userId [] d = d"
| "detectAnomaliesLoop ev userId (t # ts) d =
     detectAnomaliesLoop ev userId ts (recordAnomaly ev userId t d)"

definition detectAnomalies :: "env \<Rightarrow> db \<Rightarrow> string \<Rightarrow> db" where
  "detectAnomalies ev d userId =
     detectAnomaliesLoop ev userId (getAnomalousTransactions (transactions d) userId 3) d"







section \<open>Monitoring (notificationService)\<close>

text \<open>
  The test every monitor repeats:
  \<^verbatim>\<open>new Date(a.created_at || '').toDateString() === new Date().toDateString()\<close>.
\<close>

definition createdToday :: "env \<Rightarrow> alert \<Rightarrow> bool" where
  "createdToday ev a = (e_dateStringOf ev (a_created_at a) = e_dateString ev)"

text \<open>\<^verbatim>\<open>a.data?.includes(s)\<close>: false when the alert has no data.\<close>

definition dataIncludes :: "alert \<Rightarrow> string \<Rightarrow> bool" where
  "dataIncludes a s = (case a_data a of None \<Rightarrow> False | Some dt \<Rightarrow> includes_str dt s)"

definition apostrophe :: char where
  "apostrophe = CHR 0x27"

definition monitorCashBalance :: "env \<Rightarrow> db \<Rightarrow> string \<Rightarrow> real \<Rightarrow> db" where
  "monitorCashBalance ev d userId threshold =
     (let summary = getFinancialSummary (transactions d) userId
      in if fs_profit summary < threshold then
           (let existingAlerts = getAlerts (alerts d) userId False False;
                hasRecentCashAlert =
                  list_ex (\<lambda>a. a_alert_type a = Low_cash \<and> createdToday ev a) existingAlerts
            in if \<not> hasRecentCashAlert then
                 d\<lparr> alerts := createAlert ev
                   \<lparr> a_user_id = userId, a_alert_type = Low_cash,
                     a_severity = (if fs_profit summary < threshold * 0.5 then Critical else Warning),
                     a_title = ''Low Cash Reserves'',
                     a_message = ''Your cash balance is $'' @ e_toLocaleString ev (fs_profit summary)
                       @ '', which is below the recommended threshold of $''
                       @ e_toLocaleString ev threshold @ ''.'',
                     a_data = Some (json_object
                       [(''current_balance'', e_numToString ev (fs_profit summary)),
                        (''threshold'', e_numToString ev threshold)]),
                     a_read = 0, a_dismissed = 0, a_created_at = [] \<rparr> (alerts d) \<rparr>
               else d)
         else d)"

definition budgetAlertOf :: "env \<Rightarrow> string \<Rightarrow> budget_variance \<Rightarrow> alert" where
  "budgetAlertOf ev userId variance =
     \<lparr> a_user_id = userId, a_alert_type = Budget_overrun,
       a_severity = (if v_actual variance > b_amount (v_budget variance) * 1.2
                     then Critical else Warning),
       a_title = b_category (v_budget variance) @ '' Budget Alert'',
       a_message = ''You'' @ [apostrophe] @ ''ve spent $'' @ e_toLocaleString ev (v_actual variance)
         @ '' against a budget of $'' @ e_toLocaleString ev (b_amount (v_budget variance))
         @ '' ('' @ e_toFixed ev 0 \<bar>v_variancePercentage variance\<bar> @ ''% over).'',
       a_data = Some (json_object
         [(''category'', json_string (b_category (v_budget variance))),
          (''budget'', e_numToString ev (b_amount (v_budget variance))),
          (''actual'', e_numToString ev (v_actual variance))]),
       a_read = 0, a_dismissed = 0, a_created_at = [] \<rparr>"

definition hasRecentBudgetAlert :: "env \<Rightarrow> db \<Rightarrow> string \<Rightarrow> budget_variance \<Rightarrow> bool" where
  "hasRecentBudgetAlert ev d userId variance =
     list_ex (\<lambda>a. a_alert_type a = Budget_overrun \<and>
                   dataIncludes a (b_category (v_budget variance)) \<and>
                   createdToday ev a)
       (getAlerts (alerts d) userId False False)"

fun monitorBudgetsLoop :: "env \<Rightarrow> string \<Rightarrow> budget_variance list \<Rightarrow> db \<Rightarrow> db" where
  "monitorBudgetsLoop ev userId [] d = d"
| "monitorBudgetsLoop ev userId (variance # rest) d =
     monitorBudgetsLoop ev userId rest
       (if \<not> hasRecentBudgetAlert ev d userId variance
        then d\<lparr> alerts := createAlert ev (budgetAlertOf ev userId variance) (alerts d) \<rparr>
        else d)"

definition monitorBudgets :: "env \<Rightarrow> db \<Rightarrow> string \<Rightarrow> db" where
  "monitorBudgets ev d userId =
     monitorBudgetsLoop ev userId
       (checkBudgetAlerts (e_isoDate ev) (e_monthStart ev) (transactions d) (budgets d) userId) d"

definition goalTypeText :: "goal_type \<Rightarrow> string" where
  "goalTypeText gt =
     (case gt of Revenue \<Rightarrow> ''revenue'' | Profit \<Rightarrow> ''profit'' | Savings \<Rightarrow> ''savings''
        | Expense_reduction \<Rightarrow> ''expense_reduction'' | Custom_goal \<Rightarrow> ''custom'')"

text \<open>\<^verbatim>\<open>goal.description || goal.goal_type\<close>: a missing or empty description is falsy.\<close>

definition goalLabel :: "financial_goal \<Rightarrow> string" where
  "goalLabel g =
     (case g_description g of None \<Rightarrow> goalTypeText (g_goal_type g)
        | Some ds \<Rightarrow> if ds = [] then goalTypeText (g_goal_type g) else ds)"

definition goalAtRisk :: "env \<Rightarrow> string \<Rightarrow> goal_progress \<Rightarrow> db \<Rightarrow> db" where
  "goalAtRisk ev userId progress d =
     (case gp_days_remaining progress of
        None \<Rightarrow> d
      | Some days \<Rightarrow>
          if days \<noteq> 0 \<and> days < 30 \<and> \<not> gp_on_track progress then
            (let existingAlerts = getAlerts (alerts d) userId False False;
                 hasRecentGoalAlert =
                   list_ex (\<lambda>a. a_alert_type a = Goal_progress \<and>
                                 dataIncludes a (decimal (g_id (gp_goal progress))) \<and>
                                 createdToday ev a) existingAlerts
             in if \<not> hasRecentGoalAlert then
                  d\<lparr> alerts := createAlert ev
                    \<lparr> a_user_id = userId, a_alert_type = Goal_progress, a_severity = Warning,
                      a_title = ''Goal At Risk: '' @ goalLabel (gp_goal progress),
                      a_message = ''You'' @ [apostrophe] @ ''re ''
                        @ e_toFixed ev 0 (gp_progress_percentage progress)
                        @ ''% towards your goal with '' @ e_numToString ev days
                        @ '' days remaining. You may need to accelerate progress.'',
                      a_data = Some (json_object
                        [(''goal_id'', decimal (g_id (gp_goal progress))),
                         (''progress'', e_numToString ev (gp_progress_percentage progress))]),
                      a_read = 0, a_dismissed = 0, a_created_at = [] \<rparr> (alerts d) \<rparr>
                else d)
          else d)"

definition goalMilestone :: "env \<Rightarrow> string \<Rightarrow> goal_progress \<Rightarrow> db \<Rightarrow> db" where
  "goalMilestone ev userId progress d =
     (if gp_progress_percentage progress \<ge> 50 \<and> gp_progress_percentage progress < 55
         \<and> gp_on_track progress then
        (let existingAlerts = getAlerts (alerts d) userId True True;
             hasMilestoneAlert =
               list_ex (\<lambda>a. a_alert_type a = Goal_progress \<and>
                             dataIncludes a (decimal (g_id (gp_goal progress))) \<and>
                             includes_str (a_message a) ''50%'') existingAlerts
         in if \<not> hasMilestoneAlert then
              d\<lparr> alerts := createAlert ev
                \<lparr> a_user_id = userId, a_alert_type = Goal_progress, a_severity = Info,
                  a_title = [CHR 0xF0, CHR 0x9F, CHR 0x8E, CHR 0x89] @ '' Halfway There!'',
                  a_message = ''You'' @ [apostrophe] @ ''ve reached 50% of your ''
                    @ goalLabel (gp_goal progress) @ '' goal. Keep up the great work!'',
                  a_data = Some (json_object
                    [(''goal_id'', decimal (g_id (gp_goal progress))), (''milestone'', ''50'')]),
                  a_read = 0, a_dismissed = 0, a_created_at = [] \<rparr> (alerts d) \<rparr>
            else d)
      else d)"

fun monitorGoalsLoop :: "env \<Rightarrow> string \<Rightarrow> goal_progress list \<Rightarrow> db \<Rightarrow> db" where
  "monitorGoalsLoop ev userId [] d = d"
| "monitorGoalsLoop ev userId (progress # rest) d =
     monitorGoalsLoop ev userId rest
       (goalMilestone ev userId progress (goalAtRisk ev userId progress d))"

definition monitorGoals :: "env \<Rightarrow> db \<Rightarrow> string \<Rightarrow> db" where
  "monitorGoals ev d userId =
     monitorGoalsLoop ev userId (getGoalProgress ev (financial_goals d) userId) d"

definition revenueDecline :: "env \<Rightarrow> string \<Rightarrow> trend_data \<Rightarrow> trend_data \<Rightarrow> db \<Rightarrow> db" where
  "revenueDecline ev userId latestMonth previousMonth d =
     (if td_income latestMonth < td_income previousMonth * 0.8 then
        (let existingAlerts = getAlerts (alerts d) userId False False;
             hasRecentTrendAlert =
               list_ex (\<lambda>a. a_alert_type a = Trend \<and> includes_str (a_message a) ''revenue'' \<and>
                             createdToday ev a) existingAlerts
         in if \<not> hasRecentTrendAlert then
              d\<lparr> alerts := createAlert ev
                \<lparr> a_user_id = userId, a_alert_type = Trend, a_severity = Warning,
                  a_title = ''Revenue Decline Detected'',
                  a_message = ''Your revenue dropped by ''
                    @ percentText ev (td_income previousMonth - td_income latestMonth)
                        (td_income previousMonth)
                    @ ''% this month compared to last month. From $''
                    @ e_toLocaleString ev (td_income previousMonth) @ '' to $''
                    @ e_toLocaleString ev (td_income latestMonth) @ ''.'',
                  a_data = Some (json_object
                    [(''previous'', e_numToString ev (td_income previousMonth)),
                     (''current'', e_numToString ev (td_income latestMonth))]),
                  a_read = 0, a_dismissed = 0, a_created_at = [] \<rparr> (alerts d) \<rparr>
            else d)
      else d)"

definition expenseSpike :: "env \<Rightarrow> string \<Rightarrow> trend_data \<Rightarrow> trend_data \<Rightarrow> db \<Rightarrow> db" where
  "expenseSpike ev userId latestMonth previousMonth d =
     (if td_expenses latestMonth > td_expenses previousMonth * 1.2 then
        (let existingAlerts = getAlerts (alerts d) userId False False;
             hasRecentTrendAlert =
               list_ex (\<lambda>a. a_alert_type a = Trend \<and> includes_str (a_message a) ''expenses'' \<and>
                             createdToday ev a) existingAlerts
         in if \<not> hasRecentTrendAlert then
              d\<lparr> alerts := createAlert ev
                \<lparr> a_user_id = userId, a_alert_type = Trend, a_severity = Warning,
                  a_title = ''Expense Spike Detected'',
                  a_message = ''Your expenses increased by ''
                    @ percentText ev (td_expenses latestMonth - td_expenses previousMonth)
                        (td_expenses previousMonth)
                    @ ''% this month. From $''
                    @ e_toLocaleString ev (td_expenses previousMonth) @ '' to $''
                    @ e_toLocaleString ev (td_expenses latestMonth) @ ''.'',
                  a_data = Some (json_object
                    [(''previous'', e_numToString ev (td_expenses previousMonth)),
                     (''current'', e_numToString ev (td_expenses latestMonth))]),
                  a_read = 0, a_dismissed = 0, a_created_at = [] \<rparr> (alerts d) \<rparr>
            else d)
      else d)"

definition monitorTrends :: "env \<Rightarrow> db \<Rightarrow> string \<Rightarrow> db" where
  "monitorTrends ev d userId =
     (case getMonthlyTrends ev (transactions d) userId 3 of
        latestMonth # previousMonth # _ \<Rightarrow>
          expenseSpike ev userId latestMonth previousMonth
            (revenueDecline ev userId latestMonth previousMonth d)
      | _ \<Rightarrow> d)"

text \<open>\<^verbatim>\<open>runAllMonitoring\<close>: the five monitors in the order of the source.\<close>

definition runAllMonitoring :: "env \<Rightarrow> db \<Rightarrow> string \<Rightarrow> db" where
  "runAllMonitoring ev d userId =
     detectAnomalies ev
       (monitorTrends ev
         (monitorGoals ev
           (monitorBudgets ev
             (monitorCashBalance ev d userId 5000) userId) userId) userId) userId"

section \<open>The conversation store (conversationRepository)\<close>

text \<open>
  \<^verbatim>\<open>saveMessage\<close> inserts one row; the random \<^verbatim>\<open>message_id\<close> is not part of the
  model. \<^verbatim>\<open>getConversationHistory\<close> takes the newest \<open>limit\<close> rows of the user and
  returns them oldest first.
\<close>

definition saveMessage ::
  "env \<Rightarrow> string \<Rightarrow> role \<Rightarrow> string \<Rightarrow> conversation_message list \<Rightarrow> conversation_message list" where
  "saveMessage ev userId rl content cs =
     cs @ [\<lparr> c_user_id = userId, c_role = rl, c_content = content, c_timestamp = e_timestamp ev \<rparr>]"

definition getConversationHistory ::
  "conversation_message list \<Rightarrow> string \<Rightarrow> nat \<Rightarrow> conversation_message list" where
  "getConversationHistory cs userId limit =
     rev (take limit (order_by_desc c_timestamp (filter (\<lambda>m. c_user_id m = userId) cs)))"

definition createNotification :: "env \<Rightarrow> notification \<Rightarrow> notification list \<Rightarrow> notification list" where
  "createNotification ev n ns = ns @ [n\<lparr> n_created_at := e_timestamp ev \<rparr>]"

section \<open>The chat turn (GeminiAccountantService.chat)\<close>

text \<open>
  The external model is an input of the turn: what its first call answers to the history
  and the user's message, and what its second call answers to a function result. Either
  call may throw; \<^verbatim>\<open>functionCalls()\<close> may be empty; \<^verbatim>\<open>text()\<close> of the first
  response may throw as well. A thrown value is an object whose \<^verbatim>\<open>message\<close> may be
  missing.
\<close>

datatype js_error = JsError (err_message: "string option")

record call_args =
  ca_description :: "string option"
  ca_amount :: "real option"
  ca_type :: "string option"
  ca_category :: "string option"
  ca_date :: "string option"
  ca_timeframe :: "string option"

datatype function_call = FunctionCall (fc_name: string) (fc_args: call_args)

text \<open>
  The \<^verbatim>\<open>functionResult\<close> objects of the source: \<^verbatim>\<open>{ error: "Unknown function" }\<close>,
  \<^verbatim>\<open>{ error: err.message }\<close> of a handler that threw (the driver's text is not
  modelled), the success of \<^verbatim>\<open>addTransaction\<close> with the new id, and the message of
  \<^verbatim>\<open>generateReport\<close>.
\<close>

datatype function_result =
    UnknownFunction
  | HandlerError
  | TransactionAdded nat
  | ReportGenerated string

record model_response =
  rs_functionCalls :: "function_call list"
  rs_text :: "js_error + string"

type_synonym history = "(role \<times> string) list"

record gemini =
  llm_sendMessage :: "history \<Rightarrow> string \<Rightarrow> js_error + model_response"
  llm_sendFunctionResponse ::
    "history \<Rightarrow> string \<Rightarrow> string \<Rightarrow> function_result \<Rightarrow> js_error + string"

text \<open>
  The \<^verbatim>\<open>addTransaction\<close> handler. The insert throws when a \<^verbatim>\<open>NOT NULL\<close> column gets
  no value (\<^verbatim>\<open>Number(undefined)\<close> is \<^verbatim>\<open>NaN\<close>, stored as \<^verbatim>\<open>NULL\<close>) or when the
  type fails the table's \<^verbatim>\<open>CHECK\<close>; the handler catches that. A missing or empty date
  becomes today's.
\<close>

definition txTypeOf :: "string \<Rightarrow> tx_type option" where
  "txTypeOf s = (if s = ''income'' then Some Income
                 else if s = ''expense'' then Some Expense else None)"

definition txTypeText :: "tx_type \<Rightarrow> string" where
  "txTypeText ty = (case ty of Income \<Rightarrow> ''income'' | Expense \<Rightarrow> ''expense'')"

definition handleAddTransaction :: "env \<Rightarrow> string \<Rightarrow> call_args \<Rightarrow> db \<Rightarrow> function_result \<times> db" where
  "handleAddTransaction ev userId args d =
     (case (ca_description args, ca_amount args, ca_category args, Option.bind (ca_type args) txTypeOf) of
        (Some ds, Some am, Some cat, Some ty) \<Rightarrow>
          (let (newTransactionId, txs) =
                 addTransaction
                   \<lparr> t_id = 0, t_user_id = userId,
                     t_date = (case ca_date args of None \<Rightarrow> e_isoDate ev
                                | Some dt \<Rightarrow> if dt = [] then e_isoDate ev else dt),
                     t_description = ds, t_amount = am, t_category = cat, t_type = ty \<rparr>
                   (transactions d)
           in (TransactionAdded newTransactionId,
               d\<lparr> transactions := txs,
                  notifications := createNotification ev
                    \<lparr> n_user_id = userId, n_title = ''New Transaction'',
                      n_message = ''Added '' @ txTypeText ty @ '': '' @ ds @ '' - $''
                        @ e_numToString ev am,
                      n_type = N_success, n_created_at = [] \<rparr> (notifications d) \<rparr>))
      | _ \<Rightarrow> (HandlerError, d))"

definition dispatchCall :: "env \<Rightarrow> string \<Rightarrow> function_call \<Rightarrow> db \<Rightarrow> function_result \<times> db" where
  "dispatchCall ev userId call d =
     (if fc_name call = ''addTransaction'' then handleAddTransaction ev userId (fc_args call) d
      else if fc_name call = ''generateReport'' then
        (ReportGenerated (''Report of type ''
           @ (case ca_type (fc_args call) of None \<Rightarrow> ''undefined'' | Some ty \<Rightarrow> ty)
           @ '' generated.''), d)
      else (UnknownFunction, d))"

text \<open>The three answers of the \<^verbatim>\<open>catch\<close> block.\<close>

definition identityErrorText :: string where
  "identityErrorText =
     [CHR 0xE2, CHR 0x9D, CHR 0x8C] @ '' AI Identity Error: Your API Key is missing or unregistered in the live settings. Please check your Railway Environment Variables.''"

definition fetchFailedText :: "nat \<Rightarrow> string" where
  "fetchFailedText apiKeyLength =
     ''Connection Error: Gemini API is unreachable (fetch failed). This could be due to your local internet connection, a firewall, or Google''
     @ [apostrophe] @ ''s servers being temporarily down. (Hint: Your API Key length is ''
     @ decimal apiKeyLength @ '')''"

definition genericErrorText :: "string option \<Rightarrow> string" where
  "genericErrorText msg =
     ''Connection Error: ''
     @ (case msg of None \<Rightarrow> ''Unknown error'' | Some m \<Rightarrow> if m = [] then ''Unknown error'' else m)
     @ ''. (Hint: Check your API Key)''"

definition mentions :: "js_error \<Rightarrow> string \<Rightarrow> bool" where
  "mentions err s = (case err_message err of None \<Rightarrow> False | Some m \<Rightarrow> includes_str m s)"

definition chatError :: "nat \<Rightarrow> js_error \<Rightarrow> string" where
  "chatError apiKeyLength err =
     (if mentions err ''403'' \<or> mentions err ''identity'' then identityErrorText
      else if mentions err ''fetch failed'' then fetchFailedText apiKeyLength
      else genericErrorText (err_message err))"

text \<open>
  \<^verbatim>\<open>chat\<close>. \<open>systemPrompt\<close> is the text \<^verbatim>\<open>buildSystemPrompt\<close> makes of the financial
  context; it only travels to the model. The two \<^verbatim>\<open>saveMessage\<close> calls stand after the
  function-call branch, which returns before them.
\<close>

definition chatHistory :: "db \<Rightarrow> string \<Rightarrow> string \<Rightarrow> history" where
  "chatHistory d userId systemPrompt =
     [(User, ''SYSTEM INSTRUCTION: '' @ systemPrompt),
      (Model, ''Understood. I am ready to act as the AI Accountant.'')]
     @ map (\<lambda>m. (if c_role m = User then User else Model, c_content m))
           (getConversationHistory (conversations d) userId 20)"

definition chat :: "env \<Rightarrow> gemini \<Rightarrow> nat \<Rightarrow> db \<Rightarrow> string \<Rightarrow> string \<Rightarrow> string \<Rightarrow> string \<times> db" where
  "chat ev llm apiKeyLength d userId userMessage systemPrompt =
     (let hist = chatHistory d userId systemPrompt
      in case llm_sendMessage llm hist userMessage of
           Inl err \<Rightarrow> (chatError apiKeyLength err, d)
         | Inr response \<Rightarrow>
             (case rs_functionCalls response of
                call # _ \<Rightarrow>
                  (let (functionResult, d') = dispatchCall ev userId call d
                   in case llm_sendFunctionResponse llm hist userMessage (fc_name call) functionResult of
                        Inl err \<Rightarrow> (chatError apiKeyLength err, d')
                      | Inr text2 \<Rightarrow> (text2, d'))
              | [] \<Rightarrow>
                  (case rs_text response of
                     Inl err \<Rightarrow> (chatError apiKeyLength err, d)
                   | Inr text1 \<Rightarrow>
                       (text1,
                        d\<lparr> conversations :=
                             saveMessage ev userId Model text1
                               (saveMessage ev userId User userMessage (conversations d)) \<rparr>))))"

section \<open>Example data\<close>

text \<open>Row builders for the concrete inputs used below.\<close>

definition mk_tx :: "nat \<Rightarrow> string \<Rightarrow> string \<Rightarrow> string \<Rightarrow> real \<Rightarrow> string \<Rightarrow> tx_type \<Rightarrow> transaction" where
  "mk_tx i u dt ds am cat ty =
     \<lparr> t_id = i, t_user_id = u, t_date = dt, t_description = ds, t_amount = am,
       t_category = cat, t_type = ty \<rparr>"

definition mk_budget :: "nat \<Rightarrow> string \<Rightarrow> string \<Rightarrow> real \<Rightarrow> real option \<Rightarrow> budget" where
  "mk_budget i u cat am th =
     \<lparr> b_id = i, b_user_id = u, b_category = cat, b_amount = am, b_period = Monthly,
       b_start_date = ''2025-01-01'', b_end_date = None, b_alert_threshold = th \<rparr>"




text \<open>
  An environment for the examples: a server on UTC at noon of Sunday 2025-06-15. Its
  number-to-text functions print integers, which is all the examples feed them.
\<close>

definition ex_env :: env where
  "ex_env =
     \<lparr> e_isoDate = ''2025-06-15'',
       e_dateString = ''Sun Jun 15 2025'',
       e_monthStart = ''2025-06-01'',
       e_nowMs = 1749988800000,
       e_timestamp = ''2025-06-15 12:00:00'',
       e_monthsAgo = (\<lambda>n. if n = 3 then ''2025-03-15'' else if n = 6 then ''2024-12-15''
                           else ''2025-06-15''),
       e_futureMonth = (\<lambda>i. if i \<le> 6 then ''2025-'' @ padLeft 2 (decimal (6 + i))
                             else ''2026-'' @ padLeft 2 (decimal (i - 6))),
       e_getTime = isoDateMs,
       e_dateStringOf = (\<lambda>s. if take 10 s = ''2025-06-15'' then ''Sun Jun 15 2025''
                              else ''Another Day''),
       e_numToString = toFixedText 0,
       e_toLocaleString = toFixedText 0,
       e_toFixed = toFixedText,
       e_nextExpected = (\<lambda>s f. s) \<rparr>"

definition mk_goal :: "nat \<Rightarrow> string \<Rightarrow> real \<Rightarrow> real \<Rightarrow> goal_status \<Rightarrow> financial_goal" where
  "mk_goal i u target current st =
     \<lparr> g_id = i, g_user_id = u, g_goal_type = Savings, g_target_amount = target,
       g_current_amount = current, g_deadline = None, g_description = None, g_status = st,
       g_created_at = ''2025-01-0'' @ decimal i @ '' 09:00:00'',
       g_updated_at = ''2025-01-0'' @ decimal i @ '' 09:00:00'' \<rparr>"

text \<open>
  Goals of user u1: one that has reached its target of 1000, one that has not, one
  already completed; and a goal of user u2 past its target.
\<close>

definition ex_goals :: "financial_goal list" where
  "ex_goals = [mk_goal 1 ''u1'' 1000 1000 Active, mk_goal 2 ''u1'' 500 100 Active,
               mk_goal 3 ''u1'' 50 80 Completed, mk_goal 4 ''u2'' 10 20 Active]"

text \<open>
  Transactions for the bulk update: three descriptions that match the pattern
  \<^verbatim>\<open>%uber%\<close>, one of them another user's, and one that does not.
\<close>

definition uber_txs :: "transaction list" where
  "uber_txs = [mk_tx 1 ''u1'' ''2025-06-03'' ''UBER trip'' 30 ''Misc'' Expense,
               mk_tx 2 ''u1'' ''2025-06-04'' ''Tuber shop'' 12 ''Misc'' Expense,
               mk_tx 3 ''u2'' ''2025-06-04'' ''uber ride'' 25 ''Misc'' Expense,
               mk_tx 4 ''u1'' ''2025-06-05'' ''Bus ticket'' 3 ''Misc'' Expense]"

text \<open>
  The forecast formulas in the words of the specification: the confidence of month \<open>i\<close>,
  the projection of an average under a monthly growth rate, and the balance after \<open>i\<close>
  projected months.
\<close>

definition spec_confidence :: "nat \<Rightarrow> real" where
  "spec_confidence i = max 0.5 (0.9 - 0.1 * real i)"

definition spec_projected :: "real \<Rightarrow> real \<Rightarrow> nat \<Rightarrow> real" where
  "spec_projected avg growth i = avg * (1 + growth) ^ i"

definition spec_balance :: "real \<Rightarrow> real \<Rightarrow> real \<Rightarrow> real \<Rightarrow> real \<Rightarrow> nat \<Rightarrow> real" where
  "spec_balance balance avgIncome incomeGrowth avgExpenses expenseGrowth i =
     balance + (\<Sum>k = 1..i. spec_projected avgIncome incomeGrowth k
                            - spec_projected avgExpenses expenseGrowth k)"

text \<open>
  A database holding only two income rows of user u1, 2 in May and 1 in June 2025: the
  monthly average is 1.5 and the monthly growth rate -0.5.
\<close>

definition empty_db :: db where
  "empty_db = \<lparr> transactions = [], budgets = [], financial_goals = [], alerts = [],
       anomalies = [], recurring_transactions = [], cash_flow_forecasts = [],
       conversations = [], notifications = [] \<rparr>"

definition decline_db :: db where
  "decline_db = empty_db\<lparr> transactions :=
     [mk_tx 1 ''u1'' ''2025-05-10'' ''Invoice'' 2 ''Sales'' Income,
      mk_tx 2 ''u1'' ''2025-06-10'' ''Invoice'' 1 ''Sales'' Income] \<rparr>"


text \<open>
  Office transactions of user u1: four expenses 1, 1, 1 and 13 (mean 4) and one income
  of 24; the mean over the whole category is 8.
\<close>

definition office_db :: db where
  "office_db = empty_db\<lparr> transactions :=
     [mk_tx 1 ''u1'' ''2025-06-01'' ''Paper'' 1 ''Office'' Expense,
      mk_tx 2 ''u1'' ''2025-06-02'' ''Pens'' 1 ''Office'' Expense,
      mk_tx 3 ''u1'' ''2025-06-03'' ''Ink'' 1 ''Office'' Expense,
      mk_tx 4 ''u1'' ''2025-06-04'' ''Desk'' 13 ''Office'' Expense,
      mk_tx 5 ''u1'' ''2025-06-05'' ''Sublet'' 24 ''Office'' Income] \<rparr>"

text \<open>
  The two lookups that guard the inserts of the detectors, as predicates on the tables:
  an unreviewed anomaly of the user names the transaction; a recurring record of the user
  has the description and the category.
\<close>

definition hasOpenAnomaly :: "anomaly list \<Rightarrow> string \<Rightarrow> nat \<Rightarrow> bool" where
  "hasOpenAnomaly ans userId tid =
     list_ex (\<lambda>a. an_user_id a = userId \<and> an_reviewed a = 0 \<and> an_transaction_id a = Some tid) ans"


text \<open>
  Three external models for the chat turn: one that answers the user's message with a
  call of \<^verbatim>\<open>addTransaction\<close> (the lunch of the spec's round-trip test) and the function
  result with a text, one that answers with a text at once, and one whose calls throw an
  error of a given message.
\<close>

definition no_args :: call_args where
  "no_args = \<lparr> ca_description = None, ca_amount = None, ca_type = None, ca_category = None,
       ca_date = None, ca_timeframe = None \<rparr>"

definition lunch_llm :: gemini where
  "lunch_llm =
     \<lparr> llm_sendMessage = (\<lambda>hist msg. Inr
         \<lparr> rs_functionCalls =
             [FunctionCall ''addTransaction''
                (no_args\<lparr> ca_description := Some ''Lunch'', ca_amount := Some 150,
                           ca_type := Some ''expense'', ca_category := Some ''Meals'' \<rparr>)],
           rs_text = Inr [] \<rparr>),
       llm_sendFunctionResponse = (\<lambda>hist msg name result. Inr ''Recorded $150 for Meals.'') \<rparr>"

definition plain_llm :: gemini where
  "plain_llm =
     \<lparr> llm_sendMessage = (\<lambda>hist msg. Inr
         \<lparr> rs_functionCalls = [], rs_text = Inr ''Cash is healthy.'' \<rparr>),
       llm_sendFunctionResponse = (\<lambda>hist msg name result. Inr []) \<rparr>"


text \<open>
  A database for the monitors, by the category of its one budget: user u1 has an income
  of 10000 and has spent 150 in June 2025 against a budget of 100 in that category. Only
  the budget monitor has something to report. The second category is
  \<^verbatim>\<open>Dine "In"\<close>, with its two double quotes.
\<close>

definition dining_db :: "string \<Rightarrow> db" where
  "dining_db category = empty_db\<lparr>
     transactions :=
       [mk_tx 1 ''u1'' ''2025-06-05'' ''Invoice 17'' 10000 ''Sales'' Income,
        mk_tx 2 ''u1'' ''2025-06-10'' ''Team dinner'' 150 category Expense],
     budgets := [mk_budget 1 ''u1'' category 100 None] \<rparr>"

definition quoted_category :: string where
  "quoted_category = ''Dine '' @ [dquote] @ ''In'' @ [dquote]"

section \<open>What a monitoring run leaves behind\<close>

text \<open>
  Predicates used to state what each monitor of \<^verbatim>\<open>runAllMonitoring\<close> looks for before it
  inserts: \<open>seenAlert\<close> is the \<^verbatim>\<open>existing.some(...)\<close> and \<^verbatim>\<open>find(...)\<close> tests over
  \<^verbatim>\<open>getAlerts\<close>, \<open>grows\<close> says that a step only adds alerts and anomalies, and each
  \<open>...Ok\<close> predicate says that a monitor has nothing left to insert. \<open>json_plain\<close> holds of
  a string that \<^verbatim>\<open>JSON.stringify\<close> writes unchanged between the quotes.
\<close>

definition seenAlert :: "alert list \<Rightarrow> string \<Rightarrow> bool \<Rightarrow> bool \<Rightarrow> (alert \<Rightarrow> bool) \<Rightarrow> bool" where
  "seenAlert als userId includeRead includeDismissed P =
     list_ex P (getAlerts als userId includeRead includeDismissed)"

definition grows :: "db \<Rightarrow> db \<Rightarrow> bool" where
  "grows d d' \<longleftrightarrow>
     transactions d' = transactions d \<and> budgets d' = budgets d
     \<and> financial_goals d' = financial_goals d
     \<and> recurring_transactions d' = recurring_transactions d
     \<and> cash_flow_forecasts d' = cash_flow_forecasts d
     \<and> conversations d' = conversations d \<and> notifications d' = notifications d
     \<and> set (alerts d) \<subseteq> set (alerts d') \<and> set (anomalies d) \<subseteq> set (anomalies d')"

definition cashOk :: "env \<Rightarrow> db \<Rightarrow> string \<Rightarrow> bool" where
  "cashOk ev d userId \<longleftrightarrow>
     (fs_profit (getFinancialSummary (transactions d) userId) < 5000 \<longrightarrow>
        seenAlert (alerts d) userId False False
          (\<lambda>a. a_alert_type a = Low_cash \<and> createdToday ev a))"

definition budgetsOk :: "env \<Rightarrow> db \<Rightarrow> string \<Rightarrow> bool" where
  "budgetsOk ev d userId \<longleftrightarrow>
     (\<forall>v \<in> set (checkBudgetAlerts (e_isoDate ev) (e_monthStart ev) (transactions d) (budgets d) userId).
        hasRecentBudgetAlert ev d userId v)"

definition atRiskDue :: "goal_progress \<Rightarrow> bool" where
  "atRiskDue p = (case gp_days_remaining p of None \<Rightarrow> False
                  | Some days \<Rightarrow> days \<noteq> 0 \<and> days < 30 \<and> \<not> gp_on_track p)"

definition milestoneDue :: "goal_progress \<Rightarrow> bool" where
  "milestoneDue p = (gp_progress_percentage p \<ge> 50 \<and> gp_progress_percentage p < 55 \<and> gp_on_track p)"

definition atRiskSeen :: "env \<Rightarrow> db \<Rightarrow> string \<Rightarrow> goal_progress \<Rightarrow> bool" where
  "atRiskSeen ev d userId p =
     seenAlert (alerts d) userId False False
       (\<lambda>a. a_alert_type a = Goal_progress \<and> dataIncludes a (decimal (g_id (gp_goal p)))
             \<and> createdToday ev a)"

definition milestoneSeen :: "db \<Rightarrow> string \<Rightarrow> goal_progress \<Rightarrow> bool" where
  "milestoneSeen d userId p =
     seenAlert (alerts d) userId True True
       (\<lambda>a. a_alert_type a = Goal_progress \<and> dataIncludes a (decimal (g_id (gp_goal p)))
             \<and> includes_str (a_message a) ''50%'')"

definition goalsOk :: "env \<Rightarrow> db \<Rightarrow> string \<Rightarrow> bool" where
  "goalsOk ev d userId \<longleftrightarrow>
     (\<forall>p \<in> set (getGoalProgress ev (financial_goals d) userId).
        (atRiskDue p \<longrightarrow> atRiskSeen ev d userId p) \<and> (milestoneDue p \<longrightarrow> milestoneSeen d userId p))"

definition trendSeen :: "env \<Rightarrow> db \<Rightarrow> string \<Rightarrow> string \<Rightarrow> bool" where
  "trendSeen ev d userId word =
     seenAlert (alerts d) userId False False
       (\<lambda>a. a_alert_type a = Trend \<and> includes_str (a_message a) word \<and> createdToday ev a)"

definition trendsOk :: "env \<Rightarrow> db \<Rightarrow> string \<Rightarrow> bool" where
  "trendsOk ev d userId \<longleftrightarrow>
     (case getMonthlyTrends ev (transactions d) userId 3 of
        latestMonth # previousMonth # _ \<Rightarrow>
          (td_income latestMonth < td_income previousMonth * 0.8 \<longrightarrow> trendSeen ev d userId ''revenue'')
          \<and> (td_expenses latestMonth > td_expenses previousMonth * 1.2 \<longrightarrow> trendSeen ev d userId ''expenses'')
      | _ \<Rightarrow> True)"

definition anomaliesOk :: "db \<Rightarrow> string \<Rightarrow> bool" where
  "anomaliesOk d userId \<longleftrightarrow>
     (\<forall>t \<in> set (getAnomalousTransactions (transactions d) userId 3).
        t_id t = 0 \<or> hasOpenAnomaly (anomalies d) userId (t_id t))"

definition json_plain :: "string \<Rightarrow> bool" where
  "json_plain s = list_all (\<lambda>c. json_escape c = [c]) s"

section \<open>Properties: budget variance\<close>

lemma varianceLoop_eq:
  "varianceLoop txs u s e bs acc = acc @ map (varianceOf txs u s e) bs"
  by (induction bs arbitrary: acc) simp_all

lemma getBudgetVariance_map:
  "getBudgetVariance cd txs bs u s e = map (varianceOf txs u s e) (getActiveBudgets cd u bs)"
  by (simp add: getBudgetVariance_def varianceLoop_eq)

lemma varianceOf_budget [simp]: "v_budget (varianceOf txs u s e b) = b"
  by (simp add: varianceOf_def Let_def)










section \<open>Properties: goal completion\<close>

lemma set_order_by_desc [simp]: "set (order_by_desc k xs) = set xs"
  by (simp add: order_by_desc_def)

lemma length_order_by_desc [simp]: "length (order_by_desc k xs) = length xs"
  by (simp add: order_by_desc_def)

lemma completionLoop_map:
  "completionLoop ev cs gs =
     map (\<lambda>g. if g_id g \<in> g_id ` {c \<in> set cs. g_id c \<noteq> 0} then markCompleted ev g else g) gs"
proof (induction cs arbitrary: gs)
  case Nil
  then show ?case by simp
next
  case (Cons c cs)
  show ?case
    by (simp add: Cons.IH completeGoal_def markCompleted_def) auto
qed

text \<open>
  C9: \<^verbatim>\<open>checkGoalCompletion\<close> on a goal table whose ids are the distinct, non-zero
  rowids SQLite assigns. Every active goal of the owner with
  \<open>current_amount \<ge> target_amount\<close> is in the returned list (as the row read before
  the update), is afterwards among the owner's completed goals with status \<open>completed\<close>,
  and no active goal of the owner carries its id any more. Every other row of the table,
  in particular every goal with \<open>current_amount < target_amount\<close>, is unchanged.
\<close>

theorem checkGoalCompletion_correct:
  assumes ids: "distinct (map g_id gs)" and nz: "\<forall>x \<in> set gs. g_id x \<noteq> 0"
    and res: "checkGoalCompletion ev gs userId = (completedGoals, gs')"
  shows "(\<forall>g \<in> set gs. g_user_id g = userId \<and> g_status g = Active
              \<and> g_current_amount g \<ge> g_target_amount g \<longrightarrow>
            g \<in> set completedGoals
            \<and> g\<lparr> g_status := Completed, g_updated_at := e_timestamp ev \<rparr>
                 \<in> set (getGoals gs' userId (Some Completed))
            \<and> (\<forall>x \<in> set (getGoals gs' userId (Some Active)). g_id x \<noteq> g_id g))
       \<and> length gs' = length gs
       \<and> (\<forall>i < length gs.
             \<not> (g_user_id (gs ! i) = userId \<and> g_status (gs ! i) = Active
                \<and> g_current_amount (gs ! i) \<ge> g_target_amount (gs ! i))
             \<longrightarrow> gs' ! i = gs ! i)"
proof -
  let ?sel = "\<lambda>g. g_user_id g = userId \<and> g_status g = Active
                   \<and> g_current_amount g \<ge> g_target_amount g"
  define F where "F = (\<lambda>g. if g_id g \<in> g_id ` {c \<in> set completedGoals. g_id c \<noteq> 0}
                 then markCompleted ev g else g)"
  from res have cg: "completedGoals = filter ?sel gs" and gs': "gs' = map F gs"
    by (auto simp: checkGoalCompletion_def Let_def completionLoop_map F_def)
  have inj: "inj_on g_id (set gs)" using ids by (simp add: distinct_map)
  have hit: "g_id x \<in> g_id ` {c \<in> set completedGoals. g_id c \<noteq> 0} \<longleftrightarrow> ?sel x"
    if "x \<in> set gs" for x
  proof
    assume "g_id x \<in> g_id ` {c \<in> set completedGoals. g_id c \<noteq> 0}"
    then obtain c where c: "c \<in> set completedGoals" "g_id c = g_id x" by auto
    then have "c \<in> set gs" "?sel c" by (auto simp: cg)
    with inj that c show "?sel x" by (auto dest: inj_onD)
  next
    assume "?sel x"
    with that nz show "g_id x \<in> g_id ` {c \<in> set completedGoals. g_id c \<noteq> 0}"
      by (auto simp: cg)
  qed
  have F: "F x = (if ?sel x then markCompleted ev x else x)" if "x \<in> set gs" for x
    using hit[OF that] by (simp add: F_def)
  have Fid: "g_id (F x) = g_id x" for x
    by (simp add: F_def markCompleted_def)
  have part1: "g \<in> set completedGoals
      \<and> g\<lparr> g_status := Completed, g_updated_at := e_timestamp ev \<rparr>
           \<in> set (getGoals gs' userId (Some Completed))
      \<and> (\<forall>x \<in> set (getGoals gs' userId (Some Active)). g_id x \<noteq> g_id g)"
    if g: "g \<in> set gs" "?sel g" for g
  proof (intro conjI ballI)
    show "g \<in> set completedGoals" using g by (simp add: cg)
    have "F g \<in> set gs'" using g by (simp add: gs')
    then have "markCompleted ev g \<in> set gs'" using F[OF g(1)] g(2) by simp
    then show "g\<lparr> g_status := Completed, g_updated_at := e_timestamp ev \<rparr>
           \<in> set (getGoals gs' userId (Some Completed))"
      using g by (simp add: getGoals_def markCompleted_def)
  next
    fix x assume "x \<in> set (getGoals gs' userId (Some Active))"
    then have x: "x \<in> set gs'" "g_status x = Active" by (auto simp: getGoals_def)
    then obtain y where y: "y \<in> set gs" "x = F y" by (auto simp: gs')
    show "g_id x \<noteq> g_id g"
    proof
      assume eq: "g_id x = g_id g"
      have "g_id x = g_id y" using y by (simp add: Fid)
      with eq inj y(1) g(1) have yg: "y = g" by (auto dest: inj_onD)
      have "F g = markCompleted ev g" using F[OF g(1)] g(2) by simp
      then have "x = markCompleted ev g" using y(2) yg by simp
      with x(2) show False by (simp add: markCompleted_def)
    qed
  qed
  have part3: "gs' ! i = gs ! i" if "i < length gs" "\<not> ?sel (gs ! i)" for i
    using that F[of "gs ! i"] by (auto simp: gs')
  have len: "length gs' = length gs" by (simp add: gs')
  show ?thesis using part1 part3 len by blast
qed

text \<open>
  The example of the spec: the goal with target 1000 and current 1000 moves from the
  active to the completed set; the goal at 100 of 500 and the other user's goal stay.
\<close>

theorem checkGoalCompletion_correct_witness:
  "mk_goal 1 ''u1'' 1000 1000 Active \<in> set (fst (checkGoalCompletion ex_env ex_goals ''u1''))
   \<and> markCompleted ex_env (mk_goal 1 ''u1'' 1000 1000 Active)
        \<in> set (getGoals (snd (checkGoalCompletion ex_env ex_goals ''u1'')) ''u1'' (Some Completed))
   \<and> 1 \<notin> g_id ` set (getGoals (snd (checkGoalCompletion ex_env ex_goals ''u1'')) ''u1'' (Some Active))
   \<and> snd (checkGoalCompletion ex_env ex_goals ''u1'') ! 1 = mk_goal 2 ''u1'' 500 100 Active
   \<and> snd (checkGoalCompletion ex_env ex_goals ''u1'') ! 3 = mk_goal 4 ''u2'' 10 20 Active"
proof -
  have ids: "distinct (map g_id ex_goals)"
    by (simp add: ex_goals_def mk_goal_def)
  have nz: "\<forall>x \<in> set ex_goals. g_id x \<noteq> 0"
    by (simp add: ex_goals_def mk_goal_def)
  note T = checkGoalCompletion_correct[where ev = ex_env and userId = "''u1''" and gs = ex_goals,
      OF ids nz prod.collapse[symmetric]]
  have g1: "mk_goal 1 ''u1'' 1000 1000 Active \<in> set ex_goals"
    "g_user_id (mk_goal 1 ''u1'' 1000 1000 Active) = ''u1''"
    "g_status (mk_goal 1 ''u1'' 1000 1000 Active) = Active"
    "g_current_amount (mk_goal 1 ''u1'' 1000 1000 Active) \<ge> g_target_amount (mk_goal 1 ''u1'' 1000 1000 Active)"
    "g_id (mk_goal 1 ''u1'' 1000 1000 Active) = 1"
    by (simp_all add: ex_goals_def mk_goal_def)
  have others: "(1::nat) < length ex_goals" "ex_goals ! 1 = mk_goal 2 ''u1'' 500 100 Active"
    "\<not> g_current_amount (ex_goals ! 1) \<ge> g_target_amount (ex_goals ! 1)"
    "(3::nat) < length ex_goals" "ex_goals ! 3 = mk_goal 4 ''u2'' 10 20 Active"
    "g_user_id (ex_goals ! 3) \<noteq> ''u1''"
    by (simp_all add: ex_goals_def mk_goal_def)
  from T g1 have a: "mk_goal 1 ''u1'' 1000 1000 Active \<in> set (fst (checkGoalCompletion ex_env ex_goals ''u1''))
   \<and> markCompleted ex_env (mk_goal 1 ''u1'' 1000 1000 Active)
        \<in> set (getGoals (snd (checkGoalCompletion ex_env ex_goals ''u1'')) ''u1'' (Some Completed))
   \<and> 1 \<notin> g_id ` set (getGoals (snd (checkGoalCompletion ex_env ex_goals ''u1'')) ''u1'' (Some Active))"
    unfolding markCompleted_def by fastforce
  from T others have b: "snd (checkGoalCompletion ex_env ex_goals ''u1'') ! 1 = mk_goal 2 ''u1'' 500 100 Active
   \<and> snd (checkGoalCompletion ex_env ex_goals ''u1'') ! 3 = mk_goal 4 ''u2'' 10 20 Active"
    by metis
  from a b show ?thesis by blast
qed

section \<open>Properties: bulk recategorisation\<close>

lemma sql_like_percent [simp]: "sql_like ''%'' s"
  by (induction s) simp_all

lemma sql_like_plain_prefix:
  "CHR ''%'' \<notin> set p \<Longrightarrow> CHR ''_'' \<notin> set p \<Longrightarrow>
   sql_like (p @ ''%'') s \<longleftrightarrow> prefix (map ascii_lower p) (map ascii_lower s)"
proof (induction p arbitrary: s)
  case Nil
  then show ?case by simp
next
  case (Cons a p)
  then show ?case by (cases s) auto
qed

lemma sql_like_contains:
  assumes "CHR ''%'' \<notin> set v" "CHR ''_'' \<notin> set v"
  shows "sql_like (''%'' @ v @ ''%'') s \<longleftrightarrow> sublist (map ascii_lower v) (map ascii_lower s)"
proof (induction s)
  case Nil
  show ?case using sql_like_plain_prefix[OF assms, of "[]"] by simp
next
  case (Cons c cs)
  show ?case
    using Cons.IH sql_like_plain_prefix[OF assms, of "c # cs"]
    by (simp add: sublist_Cons_right)
qed

text \<open>
  C10, as the claim states it, fails: the rows updated are those matching the SQL pattern,
  not those containing the vendor text. For vendor \<open>uber\<close> the row described
  \<open>UBER trip\<close> does not contain \<open>uber\<close>, and its category is changed.
\<close>

theorem bulkUpdateCategory_counterexample:
  "\<exists>t \<in> set uber_txs.
     t_user_id t = ''u1'' \<and> \<not> includes_str (t_description t) ''uber'' \<and> t_category t = ''Misc''
     \<and> t\<lparr> t_category := ''Travel'' \<rparr> \<in> set (snd (bulkUpdateCategory uber_txs ''u1'' ''uber'' ''Travel''))"
  by code_simp

text \<open>
  C10, amended: \<^verbatim>\<open>bulkUpdateCategory\<close> sets the category of exactly those rows of
  the user whose description matches the pattern \<^verbatim>\<open>%vendor%\<close> under SQLite's
  \<^verbatim>\<open>LIKE\<close>, returns their number, and leaves every other row and every other field
  as it was. When the vendor text has no \<^verbatim>\<open>%\<close> and no \<^verbatim>\<open>_\<close>, a description
  matches exactly when it contains the vendor text up to the case of ASCII letters.
\<close>

theorem bulkUpdateCategory_correct:
  assumes "bulkUpdateCategory txs userId vendorName newCategory = (changes, txs')"
  shows "length txs' = length txs
    \<and> changes = card {i. i < length txs \<and> t_user_id (txs ! i) = userId
                       \<and> sql_like (''%'' @ vendorName @ ''%'') (t_description (txs ! i))}
    \<and> (\<forall>i < length txs.
          if t_user_id (txs ! i) = userId
             \<and> sql_like (''%'' @ vendorName @ ''%'') (t_description (txs ! i))
          then txs' ! i = (txs ! i)\<lparr> t_category := newCategory \<rparr>
          else txs' ! i = txs ! i)
    \<and> (CHR ''%'' \<notin> set vendorName \<and> CHR ''_'' \<notin> set vendorName \<longrightarrow>
          (\<forall>ds. sql_like (''%'' @ vendorName @ ''%'') ds
                \<longleftrightarrow> sublist (map ascii_lower vendorName) (map ascii_lower ds)))"
proof -
  from assms have c: "changes = length (filter (bulkMatches userId vendorName) txs)"
    and t: "txs' = map (\<lambda>t. if bulkMatches userId vendorName t
                             then t\<lparr> t_category := newCategory \<rparr> else t) txs"
    by (auto simp: bulkUpdateCategory_def)
  have "changes = card {i. i < length txs \<and> bulkMatches userId vendorName (txs ! i)}"
    by (simp add: c length_filter_conv_card)
  then show ?thesis
    using sql_like_contains[of vendorName]
    by (simp add: t bulkMatches_def)
qed

text \<open>The theorem at the example: vendor \<open>uber\<close>, new category \<open>Travel\<close>.\<close>

theorem bulkUpdateCategory_correct_witness:
  "length (snd (bulkUpdateCategory uber_txs ''u1'' ''uber'' ''Travel'')) = 4
   \<and> snd (bulkUpdateCategory uber_txs ''u1'' ''uber'' ''Travel'') ! 0
        = mk_tx 1 ''u1'' ''2025-06-03'' ''UBER trip'' 30 ''Travel'' Expense
   \<and> snd (bulkUpdateCategory uber_txs ''u1'' ''uber'' ''Travel'') ! 2 = uber_txs ! 2
   \<and> snd (bulkUpdateCategory uber_txs ''u1'' ''uber'' ''Travel'') ! 3 = uber_txs ! 3
   \<and> sublist (map ascii_lower ''uber'') (map ascii_lower ''UBER trip'')"
proof -
  let ?r = "snd (bulkUpdateCategory uber_txs ''u1'' ''uber'' ''Travel'')"
  let ?m = "\<lambda>i. t_user_id (uber_txs ! i) = ''u1''
                \<and> sql_like (''%'' @ ''uber'' @ ''%'') (t_description (uber_txs ! i))"
  note T = bulkUpdateCategory_correct[where txs = uber_txs and userId = "''u1''"
      and vendorName = "''uber''" and newCategory = "''Travel''", OF prod.collapse[symmetric]]
  have len: "length uber_txs = 4" by (simp add: uber_txs_def)
  from T have L: "length ?r = length uber_txs" by (rule conjunct1)
  from T have A: "\<forall>i < length uber_txs.
      if ?m i then ?r ! i = (uber_txs ! i)\<lparr> t_category := ''Travel'' \<rparr> else ?r ! i = uber_txs ! i"
    by (elim conjE)
  from T have C: "CHR ''%'' \<notin> set ''uber'' \<and> CHR ''_'' \<notin> set ''uber'' \<longrightarrow>
      (\<forall>ds. sql_like (''%'' @ ''uber'' @ ''%'') ds
            \<longleftrightarrow> sublist (map ascii_lower ''uber'') (map ascii_lower ds))"
    by (elim conjE)
  have m0: "?m 0" by code_simp
  have m2: "\<not> ?m 2" by code_simp
  have m3: "\<not> ?m 3" by code_simp
  have v0: "(uber_txs ! 0)\<lparr> t_category := ''Travel'' \<rparr>
         = mk_tx 1 ''u1'' ''2025-06-03'' ''UBER trip'' 30 ''Travel'' Expense"
    by code_simp
  have like0: "sql_like (''%'' @ ''uber'' @ ''%'') ''UBER trip''" by code_simp
  have plain: "CHR ''%'' \<notin> set ''uber'' \<and> CHR ''_'' \<notin> set ''uber''" by code_simp
  have i0: "(0::nat) < length uber_txs" and i2: "(2::nat) < length uber_txs"
    and i3: "(3::nat) < length uber_txs"
    by (simp_all add: len)
  have "length ?r = 4" using L len by (simp only:)
  moreover have "?r ! 0 = mk_tx 1 ''u1'' ''2025-06-03'' ''UBER trip'' 30 ''Travel'' Expense"
    using A[rule_format, OF i0] m0 v0 by (simp only: if_True)
  moreover have "?r ! 2 = uber_txs ! 2"
    using A[rule_format, OF i2] m2 by (simp only: if_False)
  moreover have "?r ! 3 = uber_txs ! 3"
    using A[rule_format, OF i3] m3 by (simp only: if_False)
  moreover have "sublist (map ascii_lower ''uber'') (map ascii_lower ''UBER trip'')"
    using C[rule_format, OF plain] like0 by (simp only:)
  ultimately show ?thesis by (intro conjI)
qed

section \<open>Properties: cash-flow forecast\<close>

lemma forecastLoop_eq:
  "forecastLoop ev u aI aE gI gE a n i (bal, projs, fs) =
     (bal + (\<Sum>k = i..<i + n. spec_projected aI gI k - spec_projected aE gE k),
      projs @ map (\<lambda>k. \<lparr> pr_month = e_futureMonth ev k,
                           pr_projected_income = js_round (spec_projected aI gI k),
                           pr_projected_expenses = js_round (spec_projected aE gE k),
                           pr_projected_balance =
                             js_round (bal + (\<Sum>j = i..k. spec_projected aI gI j - spec_projected aE gE j)),
                           pr_confidence = spec_confidence k \<rparr>) [i..<i + n],
      fs @ map (\<lambda>k. \<lparr> f_user_id = u, f_forecast_date = e_futureMonth ev k,
                        f_projected_income = spec_projected aI gI k,
                        f_projected_expenses = spec_projected aE gE k,
                        f_projected_balance =
                          bal + (\<Sum>j = i..k. spec_projected aI gI j - spec_projected aE gE j),
                        f_confidence_level = spec_confidence k,
                        f_assumptions = a \<rparr>) [i..<i + n])"
proof (induction n arbitrary: i bal projs fs)
  case 0
  then show ?case by simp
next
  case (Suc n)
  have split: "(\<Sum>j = i..k. spec_projected aI gI j - spec_projected aE gE j)
      = (spec_projected aI gI i - spec_projected aE gE i)
        + (\<Sum>j = Suc i..k. spec_projected aI gI j - spec_projected aE gE j)" if "i < k" for k
    using that by (simp add: sum.atLeast_Suc_atMost)
  have upt: "[i..<i + Suc n] = i # [Suc i..<Suc i + n]"
    by (simp add: upt_conv_Cons)
  have tot: "(\<Sum>k = i..<i + Suc n. spec_projected aI gI k - spec_projected aE gE k)
      = (spec_projected aI gI i - spec_projected aE gE i)
        + (\<Sum>k = Suc i..<Suc i + n. spec_projected aI gI k - spec_projected aE gE k)"
    by (simp add: sum.atLeast_Suc_lessThan)
  show ?case
    unfolding upt tot
    by (simp add: Suc.IH Let_def saveForecast_def spec_projected_def[symmetric]
        spec_confidence_def split add.assoc
        del: upt_Suc cong: map_cong)
qed

lemma spec_confidence_antimono: "i \<le> j \<Longrightarrow> spec_confidence j \<le> spec_confidence i"
  by (simp add: spec_confidence_def max_def)

lemma spec_confidence_floor: "spec_confidence i \<ge> 0.5"
  by (simp add: spec_confidence_def)

lemma spec_confidence_123: "map spec_confidence [1, 2, 3] = [0.8, 0.7, 0.6]"
  by (simp add: spec_confidence_def)

text \<open>
  C5, amended. With fewer than two months of trend data \<^verbatim>\<open>forecastCashFlow\<close> returns
  the empty list and writes nothing. Otherwise, for \<open>months = m\<close>, it returns \<open>m\<close>
  projections and appends \<open>m\<close> forecast rows. The i-th projection (i = 1..m) holds the
  specified income \<open>avgIncome * (1 + incomeGrowth)^i\<close>, expenses and running balance
  each rounded to the nearest integer by \<^verbatim>\<open>Math.round\<close>, and the confidence
  \<open>max 0.5 (0.9 - 0.1 * i)\<close> as it is; the i-th appended forecast row holds the same
  income, expenses and balance unrounded. The confidence never increases with \<open>i\<close>, is
  at least 0.5, and for \<open>m = 3\<close> the confidences are 0.8, 0.7, 0.6.
\<close>

theorem forecastCashFlow_correct:
  assumes trends: "trends = getMonthlyTrends ev (transactions d) userId 6"
    and avgI: "avgIncome = sum_list (map td_income trends) / real (length trends)"
    and avgE: "avgExpenses = sum_list (map td_expenses trends) / real (length trends)"
    and gI: "incomeGrowth = calculateGrowthRate (map td_income trends)"
    and gE: "expenseGrowth = calculateGrowthRate (map td_expenses trends)"
    and bal: "balance = fs_profit (getFinancialSummary (transactions d) userId)"
    and res: "forecastCashFlow ev d userId months = (projections, d')"
  shows "(length trends < 2 \<longrightarrow> projections = [] \<and> d' = d)
    \<and> (2 \<le> length trends \<longrightarrow>
         length projections = nat months
         \<and> length (cash_flow_forecasts d') = length (cash_flow_forecasts d) + nat months
         \<and> take (length (cash_flow_forecasts d)) (cash_flow_forecasts d') = cash_flow_forecasts d
         \<and> (\<forall>i. 1 \<le> i \<and> i \<le> nat months \<longrightarrow>
               projections ! (i - 1) =
                 \<lparr> pr_month = e_futureMonth ev i,
                   pr_projected_income = js_round (spec_projected avgIncome incomeGrowth i),
                   pr_projected_expenses = js_round (spec_projected avgExpenses expenseGrowth i),
                   pr_projected_balance =
                     js_round (spec_balance balance avgIncome incomeGrowth avgExpenses expenseGrowth i),
                   pr_confidence = spec_confidence i \<rparr>
               \<and> f_projected_income (cash_flow_forecasts d' ! (length (cash_flow_forecasts d) + i - 1))
                   = spec_projected avgIncome incomeGrowth i
               \<and> f_projected_expenses (cash_flow_forecasts d' ! (length (cash_flow_forecasts d) + i - 1))
                   = spec_projected avgExpenses expenseGrowth i
               \<and> f_projected_balance (cash_flow_forecasts d' ! (length (cash_flow_forecasts d) + i - 1))
                   = spec_balance balance avgIncome incomeGrowth avgExpenses expenseGrowth i
               \<and> f_confidence_level (cash_flow_forecasts d' ! (length (cash_flow_forecasts d) + i - 1))
                   = spec_confidence i)
         \<and> (months = 3 \<longrightarrow> map pr_confidence projections = [0.8, 0.7, 0.6]))
    \<and> (\<forall>i j. i \<le> j \<longrightarrow> spec_confidence j \<le> spec_confidence i)
    \<and> (\<forall>i. spec_confidence i \<ge> 0.5)"
proof -
  have short: "projections = [] \<and> d' = d" if "length trends < 2"
    using that res by (simp add: forecastCashFlow_def Let_def trends[symmetric])
  have long: "length projections = nat months
         \<and> length (cash_flow_forecasts d') = length (cash_flow_forecasts d) + nat months
         \<and> take (length (cash_flow_forecasts d)) (cash_flow_forecasts d') = cash_flow_forecasts d
         \<and> (\<forall>i. 1 \<le> i \<and> i \<le> nat months \<longrightarrow>
               projections ! (i - 1) =
                 \<lparr> pr_month = e_futureMonth ev i,
                   pr_projected_income = js_round (spec_projected avgIncome incomeGrowth i),
                   pr_projected_expenses = js_round (spec_projected avgExpenses expenseGrowth i),
                   pr_projected_balance =
                     js_round (spec_balance balance avgIncome incomeGrowth avgExpenses expenseGrowth i),
                   pr_confidence = spec_confidence i \<rparr>
               \<and> f_projected_income (cash_flow_forecasts d' ! (length (cash_flow_forecasts d) + i - 1))
                   = spec_projected avgIncome incomeGrowth i
               \<and> f_projected_expenses (cash_flow_forecasts d' ! (length (cash_flow_forecasts d) + i - 1))
                   = spec_projected avgExpenses expenseGrowth i
               \<and> f_projected_balance (cash_flow_forecasts d' ! (length (cash_flow_forecasts d) + i - 1))
                   = spec_balance balance avgIncome incomeGrowth avgExpenses expenseGrowth i
               \<and> f_confidence_level (cash_flow_forecasts d' ! (length (cash_flow_forecasts d) + i - 1))
                   = spec_confidence i)
         \<and> (months = 3 \<longrightarrow> map pr_confidence projections = [0.8, 0.7, 0.6])"
    if ge: "2 \<le> length trends"
  proof -
    define P where "P = (\<lambda>k. \<lparr> pr_month = e_futureMonth ev k,
                   pr_projected_income = js_round (spec_projected avgIncome incomeGrowth k),
                   pr_projected_expenses = js_round (spec_projected avgExpenses expenseGrowth k),
                   pr_projected_balance =
                     js_round (spec_balance balance avgIncome incomeGrowth avgExpenses expenseGrowth k),
                   pr_confidence = spec_confidence k \<rparr>)"
    obtain a where a: "a = ''Based on '' @ decimal (length trends)
                  @ '' months of historical data with '' @ e_toFixed ev 1 (incomeGrowth * 100)
                  @ ''% income growth and '' @ e_toFixed ev 1 (expenseGrowth * 100)
                  @ ''% expense growth''" by simp
    define F where "F = (\<lambda>k. \<lparr> f_user_id = userId, f_forecast_date = e_futureMonth ev k,
                        f_projected_income = spec_projected avgIncome incomeGrowth k,
                        f_projected_expenses = spec_projected avgExpenses expenseGrowth k,
                        f_projected_balance =
                          spec_balance balance avgIncome incomeGrowth avgExpenses expenseGrowth k,
                        f_confidence_level = spec_confidence k,
                        f_assumptions = a \<rparr>)"
    define ks where "ks = [1..<1 + nat months]"
    have nlt: "\<not> length trends < 2" using ge by simp
    from res have pr: "projections = map P ks"
      and fc: "cash_flow_forecasts d' = cash_flow_forecasts d @ map F ks"
      unfolding forecastCashFlow_def Let_def trends[symmetric] avgI[symmetric] avgE[symmetric]
        gI[symmetric] gE[symmetric] bal[symmetric] a[symmetric]
      by (auto simp: nlt forecastLoop_eq P_def F_def spec_balance_def ks_def simp del: upt_Suc)
    have lks: "length ks = nat months" by (simp add: ks_def del: upt_Suc)
    have nth: "ks ! (i - 1) = i" if "1 \<le> i" "i \<le> nat months" for i
      using that by (simp add: ks_def nth_upt del: upt_Suc)
    have idx: "projections ! (i - 1) = P i
        \<and> cash_flow_forecasts d' ! (length (cash_flow_forecasts d) + i - 1) = F i"
      if "1 \<le> i" "i \<le> nat months" for i
    proof -
      have lt: "i - 1 < length ks" using that by (simp add: lks)
      have "length (cash_flow_forecasts d) + i - 1 = length (cash_flow_forecasts d) + (i - 1)"
        using that by simp
      then show ?thesis
        using lt nth[OF that] by (simp add: pr fc nth_append)
    qed
    have three: "map pr_confidence projections = [0.8, 0.7, 0.6]" if "months = 3"
    proof -
      have "ks = [1, 2, 3]" using that by (simp add: ks_def upt_rec)
      then show ?thesis using spec_confidence_123 by (simp add: pr P_def)
    qed
    have "length projections = nat months"
      "length (cash_flow_forecasts d') = length (cash_flow_forecasts d) + nat months"
      "take (length (cash_flow_forecasts d)) (cash_flow_forecasts d') = cash_flow_forecasts d"
      by (simp_all add: pr fc lks)
    then show ?thesis
      using idx three by (simp add: P_def F_def)
  qed
  show ?thesis
    using short long spec_confidence_antimono spec_confidence_floor by blast
qed

text \<open>
  C5, as the claim states it, fails on the returned projections: their amounts are
  rounded. With an average income of 1.5 and a growth rate of -0.5 the first month's
  projected income is 0.75, and the projection returned holds 1.
\<close>

theorem forecastCashFlow_rounding_counterexample:
  "let trends = getMonthlyTrends ex_env (transactions decline_db) ''u1'' 6;
       avgIncome = sum_list (map td_income trends) / real (length trends);
       incomeGrowth = calculateGrowthRate (map td_income trends)
   in length trends = 2
      \<and> spec_projected avgIncome incomeGrowth 1 = 3 / 4
      \<and> map pr_projected_income (fst (forecastCashFlow ex_env decline_db ''u1'' 1)) = [1]"
  by code_simp

text \<open>The theorem at the example database, for a forecast of three months.\<close>

theorem forecastCashFlow_correct_witness:
  "length (fst (forecastCashFlow ex_env decline_db ''u1'' 3)) = 3
   \<and> map pr_confidence (fst (forecastCashFlow ex_env decline_db ''u1'' 3)) = [0.8, 0.7, 0.6]
   \<and> length (cash_flow_forecasts (snd (forecastCashFlow ex_env decline_db ''u1'' 3))) = 3"
proof -
  note T = forecastCashFlow_correct[OF refl refl refl refl refl refl prod.collapse[symmetric],
      where ev = ex_env and d = decline_db and userId = "''u1''" and months = 3]
  have ge: "2 \<le> length (getMonthlyTrends ex_env (transactions decline_db) ''u1'' 6)"
    by code_simp
  have none: "length (cash_flow_forecasts decline_db) = 0"
    by code_simp
  note U = T[THEN conjunct2, THEN conjunct1, rule_format, OF ge]
  have "length (fst (forecastCashFlow ex_env decline_db ''u1'' 3)) = 3"
    using U[THEN conjunct1] by simp
  moreover have "map pr_confidence (fst (forecastCashFlow ex_env decline_db ''u1'' 3)) = [0.8, 0.7, 0.6]"
    using U[THEN conjunct2, THEN conjunct2, THEN conjunct2, THEN conjunct2] by simp
  moreover have "length (cash_flow_forecasts (snd (forecastCashFlow ex_env decline_db ''u1'' 3))) = 3"
    using U[THEN conjunct2, THEN conjunct1] none by simp
  ultimately show ?thesis by (intro conjI)
qed

section \<open>Properties: recurring patterns\<close>











section \<open>Properties: anomaly detection and idempotence\<close>

lemma sum_list_insort_key:
  "sum_list (map f (insort_key k x xs)) = f x + sum_list (map (f::'a \<Rightarrow> real) xs)"
  by (induction xs) simp_all

lemma sum_list_sort_key:
  "sum_list (map f (sort_key k xs)) = sum_list (map (f::'a \<Rightarrow> real) xs)"
  by (induction xs) (simp_all add: sum_list_insort_key)

lemma sum_list_order_by_desc:
  "sum_list (map f (order_by_desc k xs)) = sum_list (map (f::'a \<Rightarrow> real) xs)"
  by (simp add: order_by_desc_def sum_list_sort_key rev_map[symmetric] sum_list_rev)

lemma average_order_by_desc:
  "average (map f (order_by_desc k xs)) = average (map f xs)"
  by (simp add: average_def sum_list_order_by_desc)

lemma anomalyLoop_eq:
  "anomalyLoop txs u th sts acc = acc @ concat (map (highTransactions txs u th) sts)"
  by (induction sts arbitrary: acc) simp_all

lemma set_getAnomalousTransactions:
  "set (getAnomalousTransactions txs u th) =
     {t \<in> set txs. t_user_id t = u
        \<and> 3 \<le> length (categoryRows txs u (t_category t) (t_type t))
        \<and> t_amount t > average (map t_amount (categoryRows txs u (t_category t) (t_type t))) * th}"
  (is "?L = ?R")
proof (intro set_eqI iffI)
  fix t assume "t \<in> ?L"
  then obtain st where st: "st \<in> set (categoryStats txs u)"
    and t: "t \<in> set (highTransactions txs u th st)"
    by (auto simp: getAnomalousTransactions_def anomalyLoop_eq)
  from st obtain c ty where stv: "st = \<lparr> cs_category = c, cs_type = ty,
        cs_avg_amount = average (map t_amount (categoryRows txs u c ty)),
        cs_count = length (categoryRows txs u c ty) \<rparr>" and cnt: "cs_count st \<ge> 3"
    by (auto simp: categoryStats_def)
  from t have "t \<in> set (categoryRows txs u c ty)" "t_amount t > cs_avg_amount st * th"
    by (auto simp: highTransactions_def stv)
  then show "t \<in> ?R" using cnt by (auto simp: stv categoryRows_def)
next
  fix t assume "t \<in> ?R"
  then have t: "t \<in> set txs" "t_user_id t = u"
    and cnt: "3 \<le> length (categoryRows txs u (t_category t) (t_type t))"
    and hi: "t_amount t > average (map t_amount (categoryRows txs u (t_category t) (t_type t))) * th"
    by auto
  let ?st = "\<lparr> cs_category = t_category t, cs_type = t_type t,
        cs_avg_amount = average (map t_amount (categoryRows txs u (t_category t) (t_type t))),
        cs_count = length (categoryRows txs u (t_category t) (t_type t)) \<rparr>"
  have "?st \<in> set (categoryStats txs u)"
    using t cnt by (auto simp: categoryStats_def intro!: image_eqI[where x = "(t_category t, t_type t)"]
        image_eqI[where x = t])
  moreover have "t \<in> set (highTransactions txs u th ?st)"
    using t hi by (simp add: highTransactions_def categoryRows_def)
  ultimately show "t \<in> ?L"
    by (auto simp: getAnomalousTransactions_def anomalyLoop_eq)
qed

lemma hasOpenAnomaly_append:
  "hasOpenAnomaly (ans @ bs) u i \<longleftrightarrow> hasOpenAnomaly ans u i \<or> hasOpenAnomaly bs u i"
  by (auto simp: hasOpenAnomaly_def list_ex_iff)

lemma recordAnomaly_eq:
  "recordAnomaly ev u t d =
     (if hasOpenAnomaly (anomalies d) u (t_id t) \<or> t_id t = 0 then d
      else d\<lparr> anomalies := anomalies d @ [(anomalyOf ev u t (transactions d))\<lparr> an_detected_at := e_timestamp ev \<rparr>],
             alerts := alerts d @ [(anomalyAlertOf ev u t (transactions d))\<lparr> a_created_at := e_timestamp ev \<rparr>] \<rparr>)"
  by (auto simp: recordAnomaly_def Let_def hasOpenAnomaly_def list_ex_iff getAnomalies_def
      createAnomaly_def createAlert_def)

lemma anomalyOf_fields:
  "an_user_id (anomalyOf ev u t txs) = u"
  "an_transaction_id (anomalyOf ev u t txs) = Some (t_id t)"
  "an_reviewed (anomalyOf ev u t txs) = 0"
  "an_severity (anomalyOf ev u t txs) =
     t_amount t / average (map t_amount (filter (\<lambda>x. t_user_id x = u \<and> t_category x = t_category t) txs))"
  by (simp_all add: anomalyOf_def Let_def getTransactionsByCategory_def average_order_by_desc)

lemma recordAnomaly_frame:
  "transactions (recordAnomaly ev u t d) = transactions d"
  "budgets (recordAnomaly ev u t d) = budgets d"
  "financial_goals (recordAnomaly ev u t d) = financial_goals d"
  "recurring_transactions (recordAnomaly ev u t d) = recurring_transactions d"
  "cash_flow_forecasts (recordAnomaly ev u t d) = cash_flow_forecasts d"
  "conversations (recordAnomaly ev u t d) = conversations d"
  "notifications (recordAnomaly ev u t d) = notifications d"
  by (simp_all add: recordAnomaly_eq)

lemma recordAnomaly_mono:
  "hasOpenAnomaly (anomalies d) u i \<Longrightarrow> hasOpenAnomaly (anomalies (recordAnomaly ev u t d)) u i"
  by (simp add: recordAnomaly_eq hasOpenAnomaly_append)

lemma recordAnomaly_records:
  "t_id t \<noteq> 0 \<Longrightarrow> hasOpenAnomaly (anomalies (recordAnomaly ev u t d)) u (t_id t)"
  by (simp add: recordAnomaly_eq hasOpenAnomaly_append)
     (simp add: hasOpenAnomaly_def anomalyOf_fields)

lemma detectAnomaliesLoop_transactions [simp]:
  "transactions (detectAnomaliesLoop ev u ts d) = transactions d"
  by (induction ts arbitrary: d) (simp_all add: recordAnomaly_frame)

lemma detectAnomaliesLoop_mono:
  "hasOpenAnomaly (anomalies d) u i \<Longrightarrow> hasOpenAnomaly (anomalies (detectAnomaliesLoop ev u ts d)) u i"
  by (induction ts arbitrary: d) (simp_all add: recordAnomaly_mono)

lemma detectAnomaliesLoop_records:
  "t \<in> set ts \<Longrightarrow> t_id t \<noteq> 0 \<Longrightarrow>
   hasOpenAnomaly (anomalies (detectAnomaliesLoop ev u ts d)) u (t_id t)"
  by (induction ts arbitrary: d)
     (auto simp: recordAnomaly_records detectAnomaliesLoop_mono)

lemma detectAnomaliesLoop_idle:
  "\<forall>t \<in> set ts. t_id t = 0 \<or> hasOpenAnomaly (anomalies d) u (t_id t) \<Longrightarrow>
   detectAnomaliesLoop ev u ts d = d"
  by (induction ts arbitrary: d) (auto simp: recordAnomaly_eq)

lemma detectAnomaliesLoop_new:
  "\<exists>new. anomalies (detectAnomaliesLoop ev u ts d) = anomalies d @ new
     \<and> (\<forall>a \<in> set new. \<exists>t \<in> set ts.
           t_id t \<noteq> 0 \<and> \<not> hasOpenAnomaly (anomalies d) u (t_id t)
           \<and> a = (anomalyOf ev u t (transactions d))\<lparr> an_detected_at := e_timestamp ev \<rparr>)"
proof (induction ts arbitrary: d)
  case Nil
  then show ?case by simp
next
  case (Cons t ts)
  let ?d1 = "recordAnomaly ev u t d"
  from Cons.IH[of ?d1] obtain new where
    n: "anomalies (detectAnomaliesLoop ev u ts ?d1) = anomalies ?d1 @ new"
    and s: "\<forall>a \<in> set new. \<exists>x \<in> set ts.
           t_id x \<noteq> 0 \<and> \<not> hasOpenAnomaly (anomalies ?d1) u (t_id x)
           \<and> a = (anomalyOf ev u x (transactions ?d1))\<lparr> an_detected_at := e_timestamp ev \<rparr>"
    by blast
  have s': "\<forall>a \<in> set new. \<exists>x \<in> set (t # ts).
           t_id x \<noteq> 0 \<and> \<not> hasOpenAnomaly (anomalies d) u (t_id x)
           \<and> a = (anomalyOf ev u x (transactions d))\<lparr> an_detected_at := e_timestamp ev \<rparr>"
    using s recordAnomaly_mono[of d u _ ev t] by (fastforce simp: recordAnomaly_frame)
  show ?case
  proof (cases "hasOpenAnomaly (anomalies d) u (t_id t) \<or> t_id t = 0")
    case True
    then have "?d1 = d" by (simp add: recordAnomaly_eq)
    with n s' show ?thesis by auto
  next
    case False
    then have "anomalies ?d1 = anomalies d
        @ [(anomalyOf ev u t (transactions d))\<lparr> an_detected_at := e_timestamp ev \<rparr>]"
      by (simp add: recordAnomaly_eq)
    with n s' False show ?thesis
      by (intro exI[of _ "(anomalyOf ev u t (transactions d))\<lparr> an_detected_at := e_timestamp ev \<rparr> # new"])
         auto
  qed
qed









lemma sum_list_pos_real:
  "xs \<noteq> [] \<Longrightarrow> \<forall>x \<in> set xs. 0 < (x::real) \<Longrightarrow> 0 < sum_list xs"
  by (induction xs) (auto intro: add_pos_nonneg sum_list_nonneg less_imp_le)

lemma average_pos:
  "xs \<noteq> [] \<Longrightarrow> \<forall>x \<in> set xs. 0 < x \<Longrightarrow> 0 < average xs"
  by (simp add: average_def sum_list_pos_real)

text \<open>
  C3, amended. On a ledger whose amounts are positive, for every threshold
  \<^verbatim>\<open>getAnomalousTransactions\<close> flags exactly the owner's transactions whose
  (category, type) pair has at least 3 transactions of the owner and whose amount exceeds
  the pair's mean amount times the threshold; \<^verbatim>\<open>detectAnomalies\<close> uses threshold 3.
  Every anomaly row it inserts belongs to a flagged transaction and has severity equal to
  that transaction's amount divided by the mean amount of all the owner's transactions
  of its category, of either type; every flagged transaction has an unreviewed anomaly
  row afterwards.
\<close>

theorem anomalyDetection_correct:
  assumes pos: "\<forall>t \<in> set (transactions d). t_user_id t = userId \<longrightarrow> 0 < t_amount t"
  shows "set (getAnomalousTransactions (transactions d) userId threshold) =
      {t \<in> set (transactions d). t_user_id t = userId
         \<and> 3 \<le> length (filter (\<lambda>x. t_user_id x = userId \<and> t_category x = t_category t
                                   \<and> t_type x = t_type t) (transactions d))
         \<and> t_amount t > average (map t_amount
               (filter (\<lambda>x. t_user_id x = userId \<and> t_category x = t_category t
                            \<and> t_type x = t_type t) (transactions d))) * threshold}
    \<and> (\<exists>new. anomalies (detectAnomalies ev d userId) = anomalies d @ new
          \<and> (\<forall>a \<in> set new. \<exists>t \<in> set (getAnomalousTransactions (transactions d) userId 3).
                an_transaction_id a = Some (t_id t) \<and> an_user_id a = userId \<and> an_reviewed a = 0
                \<and> 0 < average (map t_amount
                      (filter (\<lambda>x. t_user_id x = userId \<and> t_category x = t_category t) (transactions d)))
                \<and> an_severity a = t_amount t / average (map t_amount
                      (filter (\<lambda>x. t_user_id x = userId \<and> t_category x = t_category t) (transactions d)))))
    \<and> (\<forall>t \<in> set (getAnomalousTransactions (transactions d) userId 3).
          t_id t \<noteq> 0 \<longrightarrow>
          (\<exists>a \<in> set (anomalies (detectAnomalies ev d userId)).
             an_user_id a = userId \<and> an_transaction_id a = Some (t_id t) \<and> an_reviewed a = 0))"
proof (intro conjI)
  show "set (getAnomalousTransactions (transactions d) userId threshold) =
      {t \<in> set (transactions d). t_user_id t = userId
         \<and> 3 \<le> length (filter (\<lambda>x. t_user_id x = userId \<and> t_category x = t_category t
                                   \<and> t_type x = t_type t) (transactions d))
         \<and> t_amount t > average (map t_amount
               (filter (\<lambda>x. t_user_id x = userId \<and> t_category x = t_category t
                            \<and> t_type x = t_type t) (transactions d))) * threshold}"
    by (simp add: set_getAnomalousTransactions categoryRows_def)
next
  let ?flagged = "getAnomalousTransactions (transactions d) userId 3"
  from detectAnomaliesLoop_new[of ev userId ?flagged d] obtain new where
    n: "anomalies (detectAnomalies ev d userId) = anomalies d @ new"
    and s: "\<forall>a \<in> set new. \<exists>t \<in> set ?flagged.
           t_id t \<noteq> 0 \<and> \<not> hasOpenAnomaly (anomalies d) userId (t_id t)
           \<and> a = (anomalyOf ev userId t (transactions d))\<lparr> an_detected_at := e_timestamp ev \<rparr>"
    by (auto simp: detectAnomalies_def)
  have avg: "0 < average (map t_amount
        (filter (\<lambda>x. t_user_id x = userId \<and> t_category x = t_category t) (transactions d)))"
    if "t \<in> set ?flagged" for t
  proof -
    from that have t: "t \<in> set (transactions d)" "t_user_id t = userId"
      by (auto simp: set_getAnomalousTransactions)
    then have "t \<in> set (filter (\<lambda>x. t_user_id x = userId \<and> t_category x = t_category t) (transactions d))"
      by simp
    then have ne: "map t_amount
        (filter (\<lambda>x. t_user_id x = userId \<and> t_category x = t_category t) (transactions d)) \<noteq> []"
      by (metis empty_iff list.map_disc_iff list.set(1))
    show ?thesis
      using pos by (intro average_pos[OF ne]) auto
  qed
  have "\<forall>a \<in> set new. \<exists>t \<in> set ?flagged.
                an_transaction_id a = Some (t_id t) \<and> an_user_id a = userId \<and> an_reviewed a = 0
                \<and> 0 < average (map t_amount
                      (filter (\<lambda>x. t_user_id x = userId \<and> t_category x = t_category t) (transactions d)))
                \<and> an_severity a = t_amount t / average (map t_amount
                      (filter (\<lambda>x. t_user_id x = userId \<and> t_category x = t_category t) (transactions d)))"
  proof
    fix a assume "a \<in> set new"
    with s obtain t where t: "t \<in> set ?flagged"
      and a: "a = (anomalyOf ev userId t (transactions d))\<lparr> an_detected_at := e_timestamp ev \<rparr>"
      by blast
    show "\<exists>t \<in> set ?flagged.
                an_transaction_id a = Some (t_id t) \<and> an_user_id a = userId \<and> an_reviewed a = 0
                \<and> 0 < average (map t_amount
                      (filter (\<lambda>x. t_user_id x = userId \<and> t_category x = t_category t) (transactions d)))
                \<and> an_severity a = t_amount t / average (map t_amount
                      (filter (\<lambda>x. t_user_id x = userId \<and> t_category x = t_category t) (transactions d)))"
      using t avg[OF t] by (intro bexI[of _ t]) (simp_all add: a anomalyOf_fields)
  qed
  with n show "\<exists>new. anomalies (detectAnomalies ev d userId) = anomalies d @ new
          \<and> (\<forall>a \<in> set new. \<exists>t \<in> set (getAnomalousTransactions (transactions d) userId 3).
                an_transaction_id a = Some (t_id t) \<and> an_user_id a = userId \<and> an_reviewed a = 0
                \<and> 0 < average (map t_amount
                      (filter (\<lambda>x. t_user_id x = userId \<and> t_category x = t_category t) (transactions d)))
                \<and> an_severity a = t_amount t / average (map t_amount
                      (filter (\<lambda>x. t_user_id x = userId \<and> t_category x = t_category t) (transactions d))))"
    by blast
next
  show "\<forall>t \<in> set (getAnomalousTransactions (transactions d) userId 3).
          t_id t \<noteq> 0 \<longrightarrow>
          (\<exists>a \<in> set (anomalies (detectAnomalies ev d userId)).
             an_user_id a = userId \<and> an_transaction_id a = Some (t_id t) \<and> an_reviewed a = 0)"
    using detectAnomaliesLoop_records[of _ "getAnomalousTransactions (transactions d) userId 3" ev userId d]
    by (auto simp: detectAnomalies_def hasOpenAnomaly_def list_ex_iff)
qed

text \<open>
  C3, as the claim states it, fails on the severity: the divisor is the mean over the
  category, not over the (category, type) pair. The expense of 13 among Office expenses
  of mean 4 gets severity 13 / 8, the income of 24 in the same category raising the
  category's mean to 8; 13 / 4 is what the claim says.
\<close>

theorem anomalySeverity_counterexample:
  "\<exists>a \<in> set (anomalies (detectAnomalies ex_env office_db ''u1'')).
     an_transaction_id a = Some 4
     \<and> an_severity a = 13 / 8
     \<and> length (categoryRows (transactions office_db) ''u1'' ''Office'' Expense) = 4
     \<and> 13 / average (map t_amount (categoryRows (transactions office_db) ''u1'' ''Office'' Expense))
         = 13 / 4"
  by code_simp


text \<open>The amended C3 at the Office example: the anomaly of transaction 4 has severity 13 / 8.\<close>

theorem anomalyDetection_correct_witness:
  "\<exists>a \<in> set (anomalies (detectAnomalies ex_env office_db ''u1'')).
     an_user_id a = ''u1'' \<and> an_transaction_id a = Some 4 \<and> an_reviewed a = 0
     \<and> an_severity a = 13 / 8"
proof -
  let ?d' = "detectAnomalies ex_env office_db ''u1''"
  let ?t4 = "mk_tx 4 ''u1'' ''2025-06-04'' ''Desk'' 13 ''Office'' Expense"
  have pos: "\<forall>t \<in> set (transactions office_db). t_user_id t = ''u1'' \<longrightarrow> 0 < t_amount t"
    by code_simp
  note T = anomalyDetection_correct[OF pos, where ev = ex_env and threshold = 3]
  have fl: "getAnomalousTransactions (transactions office_db) ''u1'' 3 = [?t4]"
    by code_simp
  have t4: "t_id ?t4 = 4" "t_amount ?t4 = 13"
    by (simp_all add: mk_tx_def)
  have avg8: "average (map t_amount
      (filter (\<lambda>x. t_user_id x = ''u1'' \<and> t_category x = t_category ?t4) (transactions office_db))) = 8"
    by code_simp
  have none: "anomalies office_db = []" by code_simp
  from T obtain new where n: "anomalies ?d' = anomalies office_db @ new"
    and s: "\<forall>a \<in> set new. \<exists>t \<in> set (getAnomalousTransactions (transactions office_db) ''u1'' 3).
                an_transaction_id a = Some (t_id t) \<and> an_user_id a = ''u1'' \<and> an_reviewed a = 0
                \<and> 0 < average (map t_amount
                      (filter (\<lambda>x. t_user_id x = ''u1'' \<and> t_category x = t_category t) (transactions office_db)))
                \<and> an_severity a = t_amount t / average (map t_amount
                      (filter (\<lambda>x. t_user_id x = ''u1'' \<and> t_category x = t_category t) (transactions office_db)))"
    by blast
  from T have "\<forall>t \<in> set (getAnomalousTransactions (transactions office_db) ''u1'' 3).
          t_id t \<noteq> 0 \<longrightarrow>
          (\<exists>a \<in> set (anomalies ?d').
             an_user_id a = ''u1'' \<and> an_transaction_id a = Some (t_id t) \<and> an_reviewed a = 0)"
    by blast
  then obtain a where a: "a \<in> set (anomalies ?d')" "an_transaction_id a = Some 4"
    by (auto simp: fl t4)
  then have "a \<in> set new" by (simp add: n none)
  with s have "an_user_id a = ''u1'' \<and> an_reviewed a = 0
      \<and> an_severity a = t_amount ?t4 / average (map t_amount
           (filter (\<lambda>x. t_user_id x = ''u1'' \<and> t_category x = t_category ?t4) (transactions office_db)))"
    unfolding fl by auto
  then have "an_user_id a = ''u1'' \<and> an_reviewed a = 0 \<and> an_severity a = 13 / 8"
    by (simp add: avg8 t4)
  with a show ?thesis by blast
qed


section \<open>Properties: the chat turn\<close>

text \<open>
  C2 on the code: a turn in which the model calls a function completes, the transaction is
  added and the final text returned, and the conversation store has no row of the turn:
  the function-call branch returns before the two \<^verbatim>\<open>saveMessage\<close> calls. A turn
  answered with a text at once appends the user's message and the model's text.
\<close>

theorem chat_tool_turn_saves_nothing:
  "fst (chat ex_env lunch_llm 39 empty_db ''u1'' ''Lunch with client $150'' ''snapshot'')
     = ''Recorded $150 for Meals.''
   \<and> map t_description
         (transactions (snd (chat ex_env lunch_llm 39 empty_db ''u1'' ''Lunch with client $150'' ''snapshot'')))
       = [''Lunch'']
   \<and> conversations (snd (chat ex_env lunch_llm 39 empty_db ''u1'' ''Lunch with client $150'' ''snapshot''))
       = []
   \<and> map c_role
         (conversations (snd (chat ex_env plain_llm 39 empty_db ''u1'' ''How are we doing?'' ''snapshot'')))
       = [User, Model]"
  by code_simp



section \<open>Properties: a second monitoring run\<close>

text \<open>
  Every monitor only adds alerts and anomalies, recognises afterwards what it has inserted,
  and inserts nothing when it recognises everything it is due to report.
\<close>

lemma seenAlert_iff:
  "seenAlert als u r dd P \<longleftrightarrow>
     (\<exists>a \<in> set als. a_user_id a = u \<and> (r \<or> a_read a = 0) \<and> (dd \<or> a_dismissed a = 0) \<and> P a)"
  by (auto simp: seenAlert_def getAlerts_def list_ex_iff)

lemma seenAlert_mono:
  "seenAlert als u r dd P \<Longrightarrow> set als \<subseteq> set als' \<Longrightarrow> seenAlert als' u r dd P"
  by (auto simp: seenAlert_iff)

lemma hasOpenAnomaly_mono:
  "hasOpenAnomaly ans u i \<Longrightarrow> set ans \<subseteq> set ans' \<Longrightarrow> hasOpenAnomaly ans' u i"
  by (auto simp: hasOpenAnomaly_def list_ex_iff)

lemma grows_refl [simp]: "grows d d"
  by (simp add: grows_def)

lemma grows_trans: "grows a b \<Longrightarrow> grows b c \<Longrightarrow> grows a c"
  by (auto simp: grows_def)

lemma grows_alert [simp]: "grows d (d\<lparr> alerts := createAlert ev al (alerts d) \<rparr>)"
  by (auto simp: grows_def createAlert_def)

lemma monitorCashBalance_grows: "grows d (monitorCashBalance ev d u th)"
  by (simp add: monitorCashBalance_def Let_def)

lemma monitorCashBalance_idle: "cashOk ev d u \<Longrightarrow> monitorCashBalance ev d u 5000 = d"
  by (simp add: monitorCashBalance_def Let_def cashOk_def seenAlert_def)

lemma monitorCashBalance_ok:
  assumes day: "e_dateStringOf ev (e_timestamp ev) = e_dateString ev"
  shows "cashOk ev (monitorCashBalance ev d u 5000) u"
  using day
  by (auto simp: monitorCashBalance_def Let_def cashOk_def seenAlert_iff createAlert_def createdToday_def
      seenAlert_def[symmetric])

lemma cashOk_mono: "cashOk ev d u \<Longrightarrow> grows d d' \<Longrightarrow> cashOk ev d' u"
  by (auto simp: cashOk_def grows_def intro: seenAlert_mono)

lemma json_plain_concat: "json_plain s \<Longrightarrow> concat (map json_escape s) = s"
  by (induction s) (simp_all add: json_plain_def)

lemma includes_middle: "includes_str (ps @ s @ ss) s"
  by (simp add: includes_str_def)

lemma budget_data_includes:
  assumes "json_plain c"
  shows "includes_str (json_object [(''category'', json_string c), (''budget'', x), (''actual'', y)]) c"
proof -
  have "json_object [(''category'', json_string c), (''budget'', x), (''actual'', y)]
      = (''{'' @ json_string ''category'' @ '':'' @ [dquote]) @ c
        @ ([dquote] @ '','' @ json_field (''budget'', x) @ '','' @ json_field (''actual'', y) @ ''}'')"
    using json_plain_concat[OF assms]
    by (simp add: json_object_def json_field_def json_string_def[of c])
  then show ?thesis
    by (simp only: includes_middle)
qed

lemma hasRecentBudgetAlert_seen:
  "hasRecentBudgetAlert ev d u v =
     seenAlert (alerts d) u False False
       (\<lambda>a. a_alert_type a = Budget_overrun \<and> dataIncludes a (b_category (v_budget v))
             \<and> createdToday ev a)"
  by (simp add: hasRecentBudgetAlert_def seenAlert_def)

lemma hasRecentBudgetAlert_mono:
  "hasRecentBudgetAlert ev d u v \<Longrightarrow> grows d d' \<Longrightarrow> hasRecentBudgetAlert ev d' u v"
  by (auto simp: hasRecentBudgetAlert_seen grows_def intro: seenAlert_mono)

lemma budgetAlert_self:
  assumes day: "e_dateStringOf ev (e_timestamp ev) = e_dateString ev"
    and plain: "json_plain (b_category (v_budget v))"
  shows "hasRecentBudgetAlert ev (d\<lparr> alerts := createAlert ev (budgetAlertOf ev u v) (alerts d) \<rparr>) u v"
  using day budget_data_includes[OF plain]
  by (simp add: hasRecentBudgetAlert_seen seenAlert_iff createAlert_def budgetAlertOf_def
      createdToday_def dataIncludes_def)

lemma monitorBudgetsLoop_grows: "grows d (monitorBudgetsLoop ev u vs d)"
proof (induction vs arbitrary: d)
  case Nil
  then show ?case by simp
next
  case (Cons v vs)
  show ?case
    using Cons.IH grows_alert grows_trans by (simp del: grows_alert) metis
qed

lemma monitorBudgetsLoop_idle:
  "\<forall>v \<in> set vs. hasRecentBudgetAlert ev d u v \<Longrightarrow> monitorBudgetsLoop ev u vs d = d"
  by (induction vs arbitrary: d) simp_all

lemma monitorBudgetsLoop_ok:
  assumes day: "e_dateStringOf ev (e_timestamp ev) = e_dateString ev"
  shows "\<forall>v \<in> set vs. json_plain (b_category (v_budget v)) \<Longrightarrow>
         \<forall>v \<in> set vs. hasRecentBudgetAlert ev (monitorBudgetsLoop ev u vs d) u v"
proof (induction vs arbitrary: d)
  case Nil
  then show ?case by simp
next
  case (Cons v vs)
  let ?d1 = "if \<not> hasRecentBudgetAlert ev d u v
             then d\<lparr> alerts := createAlert ev (budgetAlertOf ev u v) (alerts d) \<rparr> else d"
  have plainv: "json_plain (b_category (v_budget v))" using Cons.prems by simp
  have "hasRecentBudgetAlert ev ?d1 u v"
    using budgetAlert_self[OF day plainv, where d = d and u = u] by simp
  then have "hasRecentBudgetAlert ev (monitorBudgetsLoop ev u vs ?d1) u v"
    by (rule hasRecentBudgetAlert_mono) (rule monitorBudgetsLoop_grows)
  moreover have "\<forall>x \<in> set vs. hasRecentBudgetAlert ev (monitorBudgetsLoop ev u vs ?d1) u x"
    using Cons.IH[of ?d1] Cons.prems by simp
  ultimately show ?case by simp
qed

lemma checkBudgetAlerts_budget:
  "v \<in> set (checkBudgetAlerts cd ms txs bs u) \<Longrightarrow> v_budget v \<in> set bs \<and> b_user_id (v_budget v) = u"
  by (auto simp: checkBudgetAlerts_def getBudgetVariance_map getActiveBudgets_def)

lemma monitorBudgets_grows: "grows d (monitorBudgets ev d u)"
  by (simp add: monitorBudgets_def monitorBudgetsLoop_grows)

lemma monitorBudgets_idle: "budgetsOk ev d u \<Longrightarrow> monitorBudgets ev d u = d"
  by (simp add: monitorBudgets_def budgetsOk_def monitorBudgetsLoop_idle)

lemma monitorBudgets_ok:
  assumes day: "e_dateStringOf ev (e_timestamp ev) = e_dateString ev"
    and plain: "\<forall>b \<in> set (budgets d). b_user_id b = u \<longrightarrow> json_plain (b_category b)"
  shows "budgetsOk ev (monitorBudgets ev d u) u"
proof -
  let ?vs = "checkBudgetAlerts (e_isoDate ev) (e_monthStart ev) (transactions d) (budgets d) u"
  have src: "transactions (monitorBudgets ev d u) = transactions d"
    "budgets (monitorBudgets ev d u) = budgets d"
    using monitorBudgets_grows[of d ev u] by (simp_all add: grows_def)
  have "\<forall>v \<in> set ?vs. json_plain (b_category (v_budget v))"
    using plain checkBudgetAlerts_budget by blast
  from monitorBudgetsLoop_ok[OF day this, where u = u and d = d]
  show ?thesis
    by (simp add: budgetsOk_def src) (simp add: monitorBudgets_def)
qed

lemma budgetsOk_mono: "budgetsOk ev d u \<Longrightarrow> grows d d' \<Longrightarrow> budgetsOk ev d' u"
  using hasRecentBudgetAlert_mono by (fastforce simp: budgetsOk_def grows_def)

lemma goal_data_includes:
  "includes_str (json_object [(''goal_id'', decimal i), kv]) (decimal i)"
proof -
  have "json_object [(''goal_id'', decimal i), kv]
      = (''{'' @ json_string ''goal_id'' @ '':'') @ decimal i @ ('','' @ json_field kv @ ''}'')"
    by (simp add: json_object_def json_field_def)
  then show ?thesis by (simp only: includes_middle)
qed

lemma goalAtRisk_eq:
  "goalAtRisk ev u p d =
     (if atRiskDue p \<and> \<not> atRiskSeen ev d u p
      then goalAtRisk ev u p d else d)"
  by (auto simp: goalAtRisk_def atRiskDue_def atRiskSeen_def seenAlert_def Let_def split: option.splits)

lemma goalAtRisk_grows: "grows d (goalAtRisk ev u p d)"
  by (simp add: goalAtRisk_def Let_def split: option.splits)

lemma goalMilestone_grows: "grows d (goalMilestone ev u p d)"
  by (simp add: goalMilestone_def Let_def)

lemma atRiskSeen_mono: "atRiskSeen ev d u p \<Longrightarrow> grows d d' \<Longrightarrow> atRiskSeen ev d' u p"
  by (auto simp: atRiskSeen_def grows_def intro: seenAlert_mono)

lemma milestoneSeen_mono: "milestoneSeen d u p \<Longrightarrow> grows d d' \<Longrightarrow> milestoneSeen d' u p"
  by (auto simp: milestoneSeen_def grows_def intro: seenAlert_mono)

lemma goalAtRisk_ok:
  assumes day: "e_dateStringOf ev (e_timestamp ev) = e_dateString ev"
  shows "atRiskDue p \<Longrightarrow> atRiskSeen ev (goalAtRisk ev u p d) u p"
  using day goal_data_includes
  by (auto simp: goalAtRisk_def atRiskDue_def atRiskSeen_def Let_def seenAlert_def[symmetric]
      seenAlert_iff createAlert_def createdToday_def dataIncludes_def split: option.splits)

lemma milestone_message_includes:
  "includes_str (''You'' @ [apostrophe] @ ''ve reached 50% of your '' @ x @ y) ''50%''"
proof -
  have "''You'' @ [apostrophe] @ ''ve reached 50% of your '' @ x @ y
      = (''You'' @ [apostrophe] @ ''ve reached '') @ ''50%'' @ ('' of your '' @ x @ y)"
    by simp
  then show ?thesis by (simp only: includes_middle)
qed

lemma goalMilestone_ok:
  "milestoneDue p \<Longrightarrow> milestoneSeen (goalMilestone ev u p d) u p"
  using goal_data_includes milestone_message_includes
  by (auto simp: goalMilestone_def milestoneDue_def milestoneSeen_def Let_def seenAlert_def[symmetric]
      seenAlert_iff createAlert_def dataIncludes_def)

lemma goalAtRisk_idle: "(atRiskDue p \<longrightarrow> atRiskSeen ev d u p) \<Longrightarrow> goalAtRisk ev u p d = d"
  by (auto simp: goalAtRisk_def atRiskDue_def atRiskSeen_def seenAlert_def Let_def split: option.splits)

lemma goalMilestone_idle: "(milestoneDue p \<longrightarrow> milestoneSeen d u p) \<Longrightarrow> goalMilestone ev u p d = d"
  by (auto simp: goalMilestone_def milestoneDue_def milestoneSeen_def seenAlert_def Let_def)

lemma monitorGoalsLoop_grows: "grows d (monitorGoalsLoop ev u ps d)"
proof (induction ps arbitrary: d)
  case Nil
  then show ?case by simp
next
  case (Cons p ps)
  have "grows d (goalMilestone ev u p (goalAtRisk ev u p d))"
    using goalAtRisk_grows goalMilestone_grows grows_trans by blast
  moreover have "grows (goalMilestone ev u p (goalAtRisk ev u p d))
      (monitorGoalsLoop ev u ps (goalMilestone ev u p (goalAtRisk ev u p d)))"
    by (rule Cons.IH)
  ultimately have "grows d (monitorGoalsLoop ev u ps (goalMilestone ev u p (goalAtRisk ev u p d)))"
    by (rule grows_trans)
  then show ?case by simp
qed

lemma monitorGoalsLoop_idle:
  "\<forall>p \<in> set ps. (atRiskDue p \<longrightarrow> atRiskSeen ev d u p) \<and> (milestoneDue p \<longrightarrow> milestoneSeen d u p) \<Longrightarrow>
   monitorGoalsLoop ev u ps d = d"
  by (induction ps arbitrary: d) (simp_all add: goalAtRisk_idle goalMilestone_idle)

lemma monitorGoalsLoop_ok:
  assumes day: "e_dateStringOf ev (e_timestamp ev) = e_dateString ev"
  shows "\<forall>p \<in> set ps. (atRiskDue p \<longrightarrow> atRiskSeen ev (monitorGoalsLoop ev u ps d) u p)
                    \<and> (milestoneDue p \<longrightarrow> milestoneSeen (monitorGoalsLoop ev u ps d) u p)"
proof (induction ps arbitrary: d)
  case Nil
  then show ?case by simp
next
  case (Cons p ps)
  let ?d1 = "goalAtRisk ev u p d"
  let ?d2 = "goalMilestone ev u p ?d1"
  have g: "grows ?d2 (monitorGoalsLoop ev u ps ?d2)" by (rule monitorGoalsLoop_grows)
  have a: "atRiskDue p \<longrightarrow> atRiskSeen ev (monitorGoalsLoop ev u ps ?d2) u p"
  proof
    assume "atRiskDue p"
    then have "atRiskSeen ev ?d1 u p" by (rule goalAtRisk_ok[OF day])
    then have "atRiskSeen ev ?d2 u p" by (rule atRiskSeen_mono) (rule goalMilestone_grows)
    then show "atRiskSeen ev (monitorGoalsLoop ev u ps ?d2) u p" by (rule atRiskSeen_mono) (rule g)
  qed
  have b: "milestoneDue p \<longrightarrow> milestoneSeen (monitorGoalsLoop ev u ps ?d2) u p"
  proof
    assume "milestoneDue p"
    then have "milestoneSeen ?d2 u p" by (rule goalMilestone_ok)
    then show "milestoneSeen (monitorGoalsLoop ev u ps ?d2) u p" by (rule milestoneSeen_mono) (rule g)
  qed
  from a b Cons.IH[of ?d2] show ?case by simp
qed

lemma monitorGoals_grows: "grows d (monitorGoals ev d u)"
  by (simp add: monitorGoals_def monitorGoalsLoop_grows)

lemma monitorGoals_idle: "goalsOk ev d u \<Longrightarrow> monitorGoals ev d u = d"
  by (simp add: monitorGoals_def goalsOk_def monitorGoalsLoop_idle)

lemma monitorGoals_ok:
  assumes day: "e_dateStringOf ev (e_timestamp ev) = e_dateString ev"
  shows "goalsOk ev (monitorGoals ev d u) u"
proof -
  have src: "financial_goals (monitorGoals ev d u) = financial_goals d"
    using monitorGoals_grows[of d ev u] by (simp add: grows_def)
  from monitorGoalsLoop_ok[OF day, where u = u and d = d
      and ps = "getGoalProgress ev (financial_goals d) u"]
  show ?thesis
    by (simp add: goalsOk_def src) (simp add: monitorGoals_def)
qed

lemma goalsOk_mono: "goalsOk ev d u \<Longrightarrow> grows d d' \<Longrightarrow> goalsOk ev d' u"
  using atRiskSeen_mono milestoneSeen_mono by (fastforce simp: goalsOk_def grows_def)

lemma trendSeen_mono: "trendSeen ev d u w \<Longrightarrow> grows d d' \<Longrightarrow> trendSeen ev d' u w"
  by (auto simp: trendSeen_def grows_def intro: seenAlert_mono)

lemma revenueDecline_grows: "grows d (revenueDecline ev u l p d)"
  by (simp add: revenueDecline_def Let_def)

lemma expenseSpike_grows: "grows d (expenseSpike ev u l p d)"
  by (simp add: expenseSpike_def Let_def)

lemma revenue_message_includes:
  "includes_str (''Your revenue dropped by '' @ x) ''revenue''"
proof -
  have "''Your revenue dropped by '' @ x = ''Your '' @ ''revenue'' @ ('' dropped by '' @ x)"
    by simp
  then show ?thesis by (simp only: includes_middle)
qed

lemma expenses_message_includes:
  "includes_str (''Your expenses increased by '' @ x) ''expenses''"
proof -
  have "''Your expenses increased by '' @ x = ''Your '' @ ''expenses'' @ ('' increased by '' @ x)"
    by simp
  then show ?thesis by (simp only: includes_middle)
qed

lemma revenueDecline_ok:
  assumes day: "e_dateStringOf ev (e_timestamp ev) = e_dateString ev"
  shows "td_income l < td_income p * 0.8 \<Longrightarrow> trendSeen ev (revenueDecline ev u l p d) u ''revenue''"
  using day revenue_message_includes
  by (auto simp: revenueDecline_def trendSeen_def Let_def seenAlert_def[symmetric]
      seenAlert_iff createAlert_def createdToday_def)

lemma expenseSpike_ok:
  assumes day: "e_dateStringOf ev (e_timestamp ev) = e_dateString ev"
  shows "td_expenses l > td_expenses p * 1.2 \<Longrightarrow> trendSeen ev (expenseSpike ev u l p d) u ''expenses''"
  using day expenses_message_includes
  by (auto simp: expenseSpike_def trendSeen_def Let_def seenAlert_def[symmetric]
      seenAlert_iff createAlert_def createdToday_def)

lemma revenueDecline_idle:
  "(td_income l < td_income p * 0.8 \<longrightarrow> trendSeen ev d u ''revenue'') \<Longrightarrow> revenueDecline ev u l p d = d"
  by (auto simp: revenueDecline_def trendSeen_def seenAlert_def Let_def)

lemma expenseSpike_idle:
  "(td_expenses l > td_expenses p * 1.2 \<longrightarrow> trendSeen ev d u ''expenses'') \<Longrightarrow> expenseSpike ev u l p d = d"
  by (auto simp: expenseSpike_def trendSeen_def seenAlert_def Let_def)

lemma trendPair_grows: "grows d (expenseSpike ev u l p (revenueDecline ev u l p d))"
  by (rule grows_trans[OF revenueDecline_grows expenseSpike_grows])

lemma monitorTrends_grows: "grows d (monitorTrends ev d u)"
  by (simp add: monitorTrends_def trendPair_grows split: list.splits)

lemma monitorTrends_idle: "trendsOk ev d u \<Longrightarrow> monitorTrends ev d u = d"
  by (auto simp: monitorTrends_def trendsOk_def revenueDecline_idle expenseSpike_idle split: list.splits)

lemma monitorTrends_ok:
  assumes day: "e_dateStringOf ev (e_timestamp ev) = e_dateString ev"
  shows "trendsOk ev (monitorTrends ev d u) u"
proof -
  have src: "transactions (monitorTrends ev d u) = transactions d"
    using monitorTrends_grows[of d ev u] by (simp add: grows_def)
  show ?thesis
  proof (cases "getMonthlyTrends ev (transactions d) u 3")
    case Nil
    then show ?thesis by (simp add: trendsOk_def src)
  next
    case (Cons l rest)
    show ?thesis
    proof (cases rest)
      case Nil
      with Cons show ?thesis by (simp add: trendsOk_def src)
    next
      case (Cons p more)
      have m: "monitorTrends ev d u = expenseSpike ev u l p (revenueDecline ev u l p d)"
        using \<open>getMonthlyTrends ev (transactions d) u 3 = l # rest\<close> Cons
        by (simp add: monitorTrends_def)
      have a: "td_income l < td_income p * 0.8 \<longrightarrow> trendSeen ev (monitorTrends ev d u) u ''revenue''"
        unfolding m
        using revenueDecline_ok[OF day] trendSeen_mono expenseSpike_grows by blast
      have b: "td_expenses l > td_expenses p * 1.2 \<longrightarrow> trendSeen ev (monitorTrends ev d u) u ''expenses''"
        unfolding m using expenseSpike_ok[OF day] by blast
      show ?thesis
        using a b \<open>getMonthlyTrends ev (transactions d) u 3 = l # rest\<close> Cons
        by (simp add: trendsOk_def src)
    qed
  qed
qed

lemma trendsOk_mono: "trendsOk ev d u \<Longrightarrow> grows d d' \<Longrightarrow> trendsOk ev d' u"
  using trendSeen_mono
  by (auto simp: trendsOk_def grows_def split: list.splits)

lemma recordAnomaly_grows: "grows d (recordAnomaly ev u t d)"
  by (auto simp: recordAnomaly_eq grows_def)

lemma detectAnomaliesLoop_grows: "grows d (detectAnomaliesLoop ev u ts d)"
proof (induction ts arbitrary: d)
  case Nil
  then show ?case by simp
next
  case (Cons t ts)
  have "grows d (detectAnomaliesLoop ev u ts (recordAnomaly ev u t d))"
    by (rule grows_trans[OF recordAnomaly_grows Cons.IH])
  then show ?case by simp
qed

lemma detectAnomalies_grows: "grows d (detectAnomalies ev d u)"
  by (simp add: detectAnomalies_def detectAnomaliesLoop_grows)

lemma detectAnomalies_idle: "anomaliesOk d u \<Longrightarrow> detectAnomalies ev d u = d"
  by (simp add: detectAnomalies_def anomaliesOk_def detectAnomaliesLoop_idle)

lemma detectAnomalies_ok: "anomaliesOk (detectAnomalies ev d u) u"
proof -
  have src: "transactions (detectAnomalies ev d u) = transactions d"
    by (simp add: detectAnomalies_def)
  show ?thesis
    unfolding anomaliesOk_def src
    using detectAnomaliesLoop_records[where ev = ev and u = u and d = d
        and ts = "getAnomalousTransactions (transactions d) u 3"]
    by (auto simp: detectAnomalies_def)
qed

lemma runAllMonitoring_grows: "grows d (runAllMonitoring ev d u)"
  unfolding runAllMonitoring_def
  by (rule grows_trans[OF grows_trans[OF grows_trans[OF grows_trans[OF
        monitorCashBalance_grows monitorBudgets_grows] monitorGoals_grows]
        monitorTrends_grows] detectAnomalies_grows])

lemma runAllMonitoring_settled:
  assumes day: "e_dateStringOf ev (e_timestamp ev) = e_dateString ev"
    and plain: "\<forall>b \<in> set (budgets d). b_user_id b = u \<longrightarrow> json_plain (b_category b)"
  shows "cashOk ev (runAllMonitoring ev d u) u"
    and "budgetsOk ev (runAllMonitoring ev d u) u"
    and "goalsOk ev (runAllMonitoring ev d u) u"
    and "trendsOk ev (runAllMonitoring ev d u) u"
    and "anomaliesOk (runAllMonitoring ev d u) u"
proof -
  define d1 where "d1 = monitorCashBalance ev d u 5000"
  define d2 where "d2 = monitorBudgets ev d1 u"
  define d3 where "d3 = monitorGoals ev d2 u"
  define d4 where "d4 = monitorTrends ev d3 u"
  define d5 where "d5 = detectAnomalies ev d4 u"
  have run: "runAllMonitoring ev d u = d5"
    by (simp add: runAllMonitoring_def d1_def d2_def d3_def d4_def d5_def)
  have g1: "grows d d1" unfolding d1_def by (rule monitorCashBalance_grows)
  have g2: "grows d1 d2" unfolding d2_def by (rule monitorBudgets_grows)
  have g3: "grows d2 d3" unfolding d3_def by (rule monitorGoals_grows)
  have g4: "grows d3 d4" unfolding d4_def by (rule monitorTrends_grows)
  have g5: "grows d4 d5" unfolding d5_def by (rule detectAnomalies_grows)
  have g35: "grows d3 d5" by (rule grows_trans[OF g4 g5])
  have g25: "grows d2 d5" by (rule grows_trans[OF g3 g35])
  have g15: "grows d1 d5" by (rule grows_trans[OF g2 g25])
  have plain1: "\<forall>b \<in> set (budgets d1). b_user_id b = u \<longrightarrow> json_plain (b_category b)"
    using plain g1 by (simp add: grows_def)
  have "cashOk ev d1 u" unfolding d1_def by (rule monitorCashBalance_ok[OF day])
  then show "cashOk ev (runAllMonitoring ev d u) u"
    unfolding run by (rule cashOk_mono) (rule g15)
  have "budgetsOk ev d2 u" unfolding d2_def by (rule monitorBudgets_ok[OF day plain1])
  then show "budgetsOk ev (runAllMonitoring ev d u) u"
    unfolding run by (rule budgetsOk_mono) (rule g25)
  have "goalsOk ev d3 u" unfolding d3_def by (rule monitorGoals_ok[OF day])
  then show "goalsOk ev (runAllMonitoring ev d u) u"
    unfolding run by (rule goalsOk_mono) (rule g35)
  have "trendsOk ev d4 u" unfolding d4_def by (rule monitorTrends_ok[OF day])
  then show "trendsOk ev (runAllMonitoring ev d u) u"
    unfolding run by (rule trendsOk_mono) (rule g5)
  show "anomaliesOk (runAllMonitoring ev d u) u"
    unfolding run d5_def by (rule detectAnomalies_ok)
qed

lemma runAllMonitoring_idle:
  assumes "cashOk ev d u" "budgetsOk ev d u" "goalsOk ev d u" "trendsOk ev d u" "anomaliesOk d u"
  shows "runAllMonitoring ev d u = d"
  using assms
  by (simp add: runAllMonitoring_def monitorCashBalance_idle monitorBudgets_idle
      monitorGoals_idle monitorTrends_idle detectAnomalies_idle)

text \<open>
  Apart from budget categories that JSON escapes, a second run at the same instant changes
  nothing: every alert and anomaly the first run created is recognised by the second.
\<close>

lemma runAllMonitoring_idempotent_plain:
  assumes "e_dateStringOf ev (e_timestamp ev) = e_dateString ev"
    and "\<forall>b \<in> set (budgets d). b_user_id b = u \<longrightarrow> json_plain (b_category b)"
  shows "runAllMonitoring ev (runAllMonitoring ev d u) u = runAllMonitoring ev d u"
  by (rule runAllMonitoring_idle) (rule runAllMonitoring_settled[OF assms])+

section \<open>Properties: alert deduplication\<close>

text \<open>
  C1 on the code: \<^verbatim>\<open>runAllMonitoring\<close> run twice at the same time of the same day, with
  nothing changed in between, on a budget whose category is \<^verbatim>\<open>Dine "In"\<close>. The first
  run inserts one budget alert, the second run a second one of the same type, category
  and day: the alert's data holds the category as JSON escapes it, and the duplicate check
  looks for the unescaped category in that text. With the category \<open>Dining\<close> the second
  run inserts nothing.
\<close>

theorem runAllMonitoring_duplicate_alert:
  "map (\<lambda>a. (a_alert_type a, a_created_at a))
       (alerts (runAllMonitoring ex_env (dining_db quoted_category) ''u1''))
     = [(Budget_overrun, ''2025-06-15 12:00:00'')]
   \<and> map (\<lambda>a. (a_alert_type a, a_created_at a))
       (alerts (runAllMonitoring ex_env
                 (runAllMonitoring ex_env (dining_db quoted_category) ''u1'') ''u1''))
     = [(Budget_overrun, ''2025-06-15 12:00:00''), (Budget_overrun, ''2025-06-15 12:00:00'')]
   \<and> map a_data
       (alerts (runAllMonitoring ex_env
                 (runAllMonitoring ex_env (dining_db quoted_category) ''u1'') ''u1''))
     = [Some (json_object [(''category'', json_string quoted_category),
                           (''budget'', ''100''), (''actual'', ''150'')]),
        Some (json_object [(''category'', json_string quoted_category),
                           (''budget'', ''100''), (''actual'', ''150'')])]
   \<and> \<not> includes_str (json_object [(''category'', json_string quoted_category),
                           (''budget'', ''100''), (''actual'', ''150'')]) quoted_category
   \<and> map a_alert_type
       (alerts (runAllMonitoring ex_env (runAllMonitoring ex_env (dining_db ''Dining'') ''u1'') ''u1''))
     = [Budget_overrun]"
  by code_simp

end
